theory Spec2Isabelle
  imports Complex_Main "HOL-Library.AList"
begin

chapter \<open>The finance dashboard: aggregation, optimistic updates, savings and portfolio\<close>

text \<open>
  A shallow embedding of the client-side logic of the personal-finance dashboard
  (\<open>frontend/src\<close>): the aggregation of a month's calendar into the list of recurring
  payments and the optimistic status update (\<open>components/RecurringPayments.jsx\<close>), the
  status update of the due items (\<open>components/PendingPayments.jsx\<close>), the savings
  projection and the loading of the dashboard (\<open>pages/Dashboard.jsx\<close>), and the
  portfolio valuation (\<open>hooks/useCryptoPortfolio.js\<close>).

  Component state is passed explicitly: a function takes the state and returns the new
  one. What a function learns from outside (the outcome of a request, the clock) is an
  argument. An \<open>async\<close> function that matters before and after its \<open>await\<close> is
  modelled in two steps.
\<close>

section \<open>JavaScript values and built-ins used by the dashboard\<close>

text \<open>
  A JavaScript number is modelled as a real number: rounding and overflow of the double
  format are not part of the model. The one non-numeric result the modelled code can
  produce, \<open>NaN\<close>, is kept where it can arise. Strings are byte lists (UTF-8).
\<close>

datatype number = Num real | NaN

text \<open>The outcome of an awaited promise: fulfilled with a value, or rejected (the
  \<open>await\<close> throws and the surrounding \<open>catch\<close> runs).\<close>

datatype 'a settled = Fulfilled 'a | Rejected

subsection \<open>Strings\<close>

text \<open>\<open>String.prototype.toLowerCase\<close>, on the ASCII letters. JavaScript lowers
  letters outside ASCII as well; the model leaves their bytes as they are. Of those
  letters only the Kelvin sign and the dotted capital I lower to an ASCII letter (\<open>k\<close>
  and \<open>i\<close>), and neither occurs in \<open>semanal\<close>, the one text the code searches
  for in a lowered string.\<close>

definition lower_char :: "char \<Rightarrow> char" where
  "lower_char c =
     (let n = (of_char c :: nat) in if 65 \<le> n \<and> n \<le> 90 then char_of (n + 32) else c)"

definition toLowerCase :: "string \<Rightarrow> string" where
  "toLowerCase s = map lower_char s"

fun startsWith :: "string \<Rightarrow> string \<Rightarrow> bool" where
  "startsWith s [] = True"
| "startsWith [] (p # ps) = False"
| "startsWith (c # cs) (p # ps) = (c = p \<and> startsWith cs ps)"

text \<open>\<open>String.prototype.includes\<close>: the search string occurs at some position.\<close>

fun str_includes :: "string \<Rightarrow> string \<Rightarrow> bool" where
  "str_includes [] sub = (sub = [])"
| "str_includes (c # cs) sub = (startsWith (c # cs) sub \<or> str_includes cs sub)"

subsection \<open>Integers as decimal text\<close>

definition digit_char :: "nat \<Rightarrow> char" where
  "digit_char d = char_of (48 + d)"

fun digits :: "nat \<Rightarrow> string" where
  "digits n = (if n < 10 then [digit_char n] else digits (n div 10) @ [digit_char (n mod 10)])"

declare digits.simps [simp del]

text \<open>\<open>Number.prototype.toString\<close> on an integer (below \<open>10^21\<close> in magnitude, where
  JavaScript prints plain decimal digits).\<close>

definition toString :: "int \<Rightarrow> string" where
  "toString i = (if i < 0 then CHR ''-'' # digits (nat (- i)) else digits (nat i))"

definition is_digit :: "char \<Rightarrow> bool" where
  "is_digit c = (let n = (of_char c :: nat) in 48 \<le> n \<and> n \<le> 57)"

definition digit_val :: "char \<Rightarrow> nat" where
  "digit_val c = of_char c - 48"

definition is_hex_digit :: "char \<Rightarrow> bool" where
  "is_hex_digit c =
     (let n = (of_char c :: nat)
      in (48 \<le> n \<and> n \<le> 57) \<or> (65 \<le> n \<and> n \<le> 70) \<or> (97 \<le> n \<and> n \<le> 102))"

definition hex_val :: "char \<Rightarrow> nat" where
  "hex_val c =
     (let n = (of_char c :: nat)
      in if n \<le> 57 then n - 48 else if n \<le> 70 then n - 55 else n - 87)"

definition is_space :: "char \<Rightarrow> bool" where
  "is_space c = (of_char c \<in> {9, 10, 11, 12, 13, 32 :: nat})"

definition radix_value :: "nat \<Rightarrow> (char \<Rightarrow> nat) \<Rightarrow> string \<Rightarrow> nat" where
  "radix_value r val s = foldl (\<lambda>acc c. r * acc + val c) 0 s"

text \<open>The digits of \<open>parseInt\<close>: an optional \<open>0x\<close>/\<open>0X\<close> prefix selects radix 16; the
  longest prefix of digits of the radix is read; no digit at all gives \<open>NaN\<close> (\<open>None\<close>).\<close>

definition parse_magnitude :: "string \<Rightarrow> nat option" where
  "parse_magnitude s =
     (if startsWith s ''0x'' \<or> startsWith s ''0X''
      then (let z = takeWhile is_hex_digit (drop 2 s)
            in if z = [] then None else Some (radix_value 16 hex_val z))
      else (let z = takeWhile is_digit s
            in if z = [] then None else Some (radix_value 10 digit_val z)))"

text \<open>\<open>parseInt(s)\<close> with no radix argument: leading white space is skipped, then an
  optional sign, then the digits. \<open>None\<close> is \<open>NaN\<close>. Of the white space JavaScript
  skips, the model knows the ASCII characters; the text the component stores and reads
  back is a sign and decimal digits.\<close>

definition parseInt :: "string \<Rightarrow> int option" where
  "parseInt s =
     (let t = dropWhile is_space s
      in case t of
           [] \<Rightarrow> None
         | c # cs \<Rightarrow>
             if c = CHR ''-'' then map_option (\<lambda>n. - int n) (parse_magnitude cs)
             else if c = CHR ''+'' then map_option int (parse_magnitude cs)
             else map_option int (parse_magnitude t))"

section \<open>Calendar aggregation (\<open>RecurringPayments.jsx\<close>)\<close>

subsection \<open>Data\<close>

text \<open>A transaction of the calendar payload, with the fields the component reads. A
  missing or \<open>null\<close> \<open>payment_status\<close> is \<open>None\<close>.\<close>

record 'id transaction =
  tx_id :: 'id
  description :: string
  tx_amount :: real
  tx_category :: string
  is_recurring :: bool
  payment_status :: "string option"

text \<open>A calendar day; \<open>transactions\<close> may be absent.\<close>

record 'id calendar_day =
  day_date :: string
  transactions :: "'id transaction list option"

text \<open>The object stored in \<open>paymentData[name]\<close> on the first sighting of a name.\<close>

record 'id payment_seed =
  s_id :: 'id
  s_name :: string
  s_amount :: real
  s_date :: string
  s_category :: string
  s_status :: string

text \<open>An element of \<open>allRecurring\<close>, the list the component keeps in its state:
  the seed's fields (the object spread) and the three computed ones.\<close>

record 'id payment =
  p_id :: 'id
  p_name :: string
  p_amount :: real
  p_date :: string
  p_category :: string
  p_status :: string
  frequency :: string
  p_count :: nat
  monthlyTotal :: real

subsection \<open>Plain objects used as dictionaries\<close>

text \<open>
  \<open>paymentCounts\<close> and \<open>paymentData\<close> are created as \<open>{}\<close>, so a property
  read that finds no own property continues in \<open>Object.prototype\<close>. What a read of
  \<open>paymentCounts[name]\<close> can yield: nothing, a number the code stored, \<open>NaN\<close>, or
  a member inherited from \<open>Object.prototype\<close> (a function or an object).
\<close>

datatype jsval = Undefined | Count nat | NotANumber | Inherited

definition Object_prototype_names :: "string list" where
  "Object_prototype_names =
     [''constructor'', ''hasOwnProperty'', ''isPrototypeOf'', ''propertyIsEnumerable'',
      ''toLocaleString'', ''toString'', ''valueOf'', ''__proto__'',
      ''__defineGetter__'', ''__defineSetter__'', ''__lookupGetter__'', ''__lookupSetter__'']"

text \<open>The own properties of \<open>paymentCounts\<close> are a map; \<open>getCount\<close> is the read
  \<open>paymentCounts[name]\<close>.\<close>

definition getCount :: "(string \<rightharpoonup> jsval) \<Rightarrow> string \<Rightarrow> jsval" where
  "getCount counts name =
     (case counts name of
        Some v \<Rightarrow> v
      | None \<Rightarrow> if name \<in> set Object_prototype_names then Inherited else Undefined)"

text \<open>The write \<open>paymentCounts[name] = v\<close> of a number: an own property is created or
  overwritten, except for \<open>__proto__\<close>, whose setter ignores a value that is not an
  object.\<close>

definition setCount :: "(string \<rightharpoonup> jsval) \<Rightarrow> string \<Rightarrow> jsval \<Rightarrow> (string \<rightharpoonup> jsval)" where
  "setCount counts name v = (if name = ''__proto__'' then counts else counts(name \<mapsto> v))"

text \<open>Truthiness, as the test \<open>!paymentCounts[name]\<close> reads it.\<close>

fun truthy :: "jsval \<Rightarrow> bool" where
  "truthy Undefined = False"
| "truthy (Count n) = (n \<noteq> 0)"
| "truthy NotANumber = False"
| "truthy Inherited = True"

text \<open>The value \<open>v + 1\<close> that \<open>paymentCounts[name]++\<close> writes back: anything that is
  not a number converts to \<open>NaN\<close>.\<close>

fun increment :: "jsval \<Rightarrow> jsval" where
  "increment (Count n) = Count (n + 1)"
| "increment Undefined = NotANumber"
| "increment NotANumber = NotANumber"
| "increment Inherited = NotANumber"

text \<open>The own properties of \<open>paymentData\<close>, in creation order. The write
  \<open>paymentData[name] = seed\<close> overwrites in place or appends; on \<open>__proto__\<close> it
  would replace the prototype and create no own property.\<close>

definition setData ::
  "(string \<times> 'id payment_seed) list \<Rightarrow> string \<Rightarrow> 'id payment_seed \<Rightarrow> (string \<times> 'id payment_seed) list"
where
  "setData pdata name seed = (if name = ''__proto__'' then pdata else AList.update name seed pdata)"

text \<open>A canonical array index: the decimal text of an integer below \<open>2^32 - 1\<close>.\<close>

definition is_array_index :: "string \<Rightarrow> bool" where
  "is_array_index s =
     (s \<noteq> [] \<and> list_all is_digit s \<and> (s = ''0'' \<or> hd s \<noteq> CHR ''0'')
      \<and> int (radix_value 10 digit_val s) < 4294967295)"

text \<open>The own properties in the order \<open>Object.keys\<close> enumerates them: array indices
  first, in ascending numeric order, then the other names in creation order.\<close>

definition own_enumerable :: "(string \<times> 'a) list \<Rightarrow> (string \<times> 'a) list" where
  "own_enumerable obj =
     sort_key (\<lambda>(k, v). radix_value 10 digit_val k) (filter (\<lambda>(k, v). is_array_index k) obj)
     @ filter (\<lambda>(k, v). \<not> is_array_index k) obj"

subsection \<open>The aggregation effect\<close>

text \<open>The status stored in the seed: \<open>tx.payment_status || 'pendiente'\<close>. The empty
  string is falsy as well.\<close>

definition status_or_default :: "string option \<Rightarrow> string" where
  "status_or_default st =
     (case st of None \<Rightarrow> ''pendiente'' | Some s \<Rightarrow> if s = [] then ''pendiente'' else s)"

definition seed_of :: "string \<Rightarrow> 'id transaction \<Rightarrow> 'id payment_seed" where
  "seed_of date tx =
     \<lparr> s_id = tx_id tx, s_name = description tx, s_amount = tx_amount tx, s_date = date,
       s_category = tx_category tx, s_status = status_or_default (payment_status tx) \<rparr>"

type_synonym 'id tables = "(string \<rightharpoonup> jsval) \<times> (string \<times> 'id payment_seed) list"

text \<open>The body of the inner \<open>forEach\<close>, for one transaction of the day dated \<open>date\<close>.\<close>

definition visit_tx :: "string \<Rightarrow> 'id transaction \<Rightarrow> 'id tables \<Rightarrow> 'id tables" where
  "visit_tx date tx tabs =
     (if is_recurring tx then
        (let name = description tx;
             (paymentCounts, paymentData) = tabs;
             (paymentCounts, paymentData) =
               (if \<not> truthy (getCount paymentCounts name)
                then (setCount paymentCounts name (Count 0),
                      setData paymentData name (seed_of date tx))
                else (paymentCounts, paymentData))
         in (setCount paymentCounts name (increment (getCount paymentCounts name)), paymentData))
      else tabs)"

text \<open>The body of the outer \<open>forEach\<close>.\<close>

definition visit_day :: "'id calendar_day \<Rightarrow> 'id tables \<Rightarrow> 'id tables" where
  "visit_day day tabs =
     (case transactions day of
        None \<Rightarrow> tabs
      | Some txs \<Rightarrow> fold (visit_tx (day_date day)) txs tabs)"

definition scan_days :: "'id calendar_day list \<Rightarrow> 'id tables" where
  "scan_days days = fold visit_day days (Map.empty, [])"

text \<open>The count read back in the final \<open>map\<close>. Every name of \<open>paymentData\<close> has a
  number in \<open>paymentCounts\<close> (lemma \<open>scan_days_counted\<close> below), so the last case is
  never taken.\<close>

definition count_of :: "(string \<rightharpoonup> jsval) \<Rightarrow> string \<Rightarrow> nat" where
  "count_of counts name = (case getCount counts name of Count c \<Rightarrow> c | _ \<Rightarrow> 0)"

definition isWeekly :: "string \<Rightarrow> nat \<Rightarrow> bool" where
  "isWeekly name c = (str_includes (toLowerCase name) ''semanal'' \<or> c \<ge> 4)"

text \<open>The callback of \<open>Object.keys(paymentData).map\<close>, given the name, the seed
  \<open>paymentData[name]\<close> and the count \<open>paymentCounts[name]\<close>.\<close>

definition build_entry :: "string \<Rightarrow> 'id payment_seed \<Rightarrow> nat \<Rightarrow> 'id payment" where
  "build_entry name seed c =
     \<lparr> p_id = s_id seed, p_name = s_name seed, p_amount = s_amount seed, p_date = s_date seed,
       p_category = s_category seed, p_status = s_status seed,
       frequency =
         (if isWeekly name c then ''SEMANAL ('' @ toString (int c) @ ''x)'' else ''MENSUAL''),
       p_count = c,
       monthlyTotal = (if isWeekly name c then s_amount seed * real c else s_amount seed) \<rparr>"

text \<open>\<open>Object.keys(paymentData).map(...)\<close>. The names of \<open>paymentData\<close> are
  distinct (lemma \<open>scan_days_distinct_names\<close> below), so the seed read as
  \<open>paymentData[name]\<close> for an enumerated name is the one stored with it.\<close>

definition allRecurring :: "'id tables \<Rightarrow> 'id payment list" where
  "allRecurring tabs =
     map (\<lambda>(name, seed). build_entry name seed (count_of (fst tabs) name))
       (own_enumerable (snd tabs))"

text \<open>\<open>allRecurring.sort((a, b) => b.monthlyTotal - a.monthlyTotal)\<close>.
  \<open>Array.prototype.sort\<close> is stable, and on numbers the comparator is a consistent
  order, so the result is the stable sort by descending \<open>monthlyTotal\<close>.\<close>

definition sort_desc :: "'id payment list \<Rightarrow> 'id payment list" where
  "sort_desc ps = sort_key (\<lambda>p. - monthlyTotal p) ps"

text \<open>The list passed to \<open>setRecurringPayments\<close> for a payload with \<open>days\<close>.\<close>

definition aggregate :: "'id calendar_day list \<Rightarrow> 'id payment list" where
  "aggregate days = sort_desc (allRecurring (scan_days days))"

text \<open>The effect itself: without \<open>data?.days\<close> the state is left as it is.\<close>

definition aggregation_effect ::
  "'id calendar_day list option \<Rightarrow> 'id payment list \<Rightarrow> 'id payment list" where
  "aggregation_effect data recurringPayments =
     (case data of None \<Rightarrow> recurringPayments | Some days \<Rightarrow> aggregate days)"

section \<open>Optimistic status updates\<close>

subsection \<open>Recurring payments (\<open>RecurringPayments.jsx\<close>, \<open>updateStatus\<close>)\<close>

record 'id recurring_state =
  recurringPayments :: "'id payment list"
  openDropdown :: "'id option"

text \<open>The body sent with \<open>updateTransactionStatus\<close>.\<close>

record 'id status_request =
  req_id :: 'id
  req_payment_status :: string
  req_date :: string

text \<open>The optimistic update \<open>prev.map(p => p.id === paymentId ? {...p, status: newStatus} : p)\<close>.\<close>

definition mark_status :: "'id \<Rightarrow> string \<Rightarrow> 'id payment list \<Rightarrow> 'id payment list" where
  "mark_status paymentId newStatus prev =
     map (\<lambda>p. if p_id p = paymentId then p\<lparr>p_status := newStatus\<rparr> else p) prev"

text \<open>\<open>updateStatus\<close> up to its \<open>await\<close>: the dropdown is closed, the list is copied
  into \<open>previousPayments\<close>, the optimistic update is applied and the request is issued
  with the caller's local date. The result is the snapshot, the request and the state
  that is visible while the request is in flight. The list the function copies is the
  one of the render that created it; the model takes it from the state, that is, the
  component has rendered since the list last changed.\<close>

definition updateStatus_begin ::
  "'id \<Rightarrow> string \<Rightarrow> string \<Rightarrow> 'id recurring_state
     \<Rightarrow> 'id payment list \<times> 'id status_request \<times> 'id recurring_state" where
  "updateStatus_begin paymentId newStatus localDate st =
     (let previousPayments = recurringPayments st;
          st = st\<lparr>openDropdown := None\<rparr>;
          st = st\<lparr>recurringPayments := mark_status paymentId newStatus (recurringPayments st)\<rparr>
      in (previousPayments,
          \<lparr>req_id = paymentId, req_payment_status = newStatus, req_date = localDate\<rparr>,
          st))"

text \<open>\<open>updateStatus\<close> after the \<open>await\<close>, run on the state of that moment. On success
  a refresh is scheduled (after 500 ms) when the parent passed \<open>onStatusChange\<close>; the
  second component of the result says whether one was. On failure the \<open>catch\<close>
  stores the snapshot back.\<close>

definition updateStatus_settle ::
  "'id payment list \<Rightarrow> bool \<Rightarrow> unit settled \<Rightarrow> 'id recurring_state
     \<Rightarrow> 'id recurring_state \<times> bool" where
  "updateStatus_settle previousPayments onStatusChange outcome st =
     (case outcome of
        Fulfilled u \<Rightarrow> (st, onStatusChange)
      | Rejected \<Rightarrow> (st\<lparr>recurringPayments := previousPayments\<rparr>, False))"

text \<open>The whole call, when nothing else touches the state while the request is in
  flight.\<close>

definition updateStatus ::
  "'id \<Rightarrow> string \<Rightarrow> string \<Rightarrow> bool \<Rightarrow> unit settled \<Rightarrow> 'id recurring_state
     \<Rightarrow> 'id recurring_state \<times> bool" where
  "updateStatus paymentId newStatus localDate onStatusChange outcome st =
     (let (previousPayments, request, st) = updateStatus_begin paymentId newStatus localDate st
      in updateStatus_settle previousPayments onStatusChange outcome st)"

subsection \<open>Due items (\<open>PendingPayments.jsx\<close>, \<open>fetchPayments\<close> and \<open>updateStatus\<close>)\<close>

text \<open>A due item as the server sends it. The amount is kept as received (of type
  \<open>'a\<close>); the component converts it with \<open>parseFloat\<close>, a parameter of the model.\<close>

record ('id, 'a) due_item =
  item_id :: 'id
  item_description :: "string option"
  item_amount :: 'a
  item_due_date :: string
  item_category :: "string option"
  item_status :: "string option"

record 'id pending_payment =
  pp_id :: 'id
  pp_name :: string
  pp_amount :: number
  pp_dueDate :: string
  pp_category :: string
  pp_status :: string

record 'id pending_state =
  payments :: "'id pending_payment list"
  pp_loading :: bool
  pp_error :: "string option"
  pp_openDropdown :: "'id option"

text \<open>\<open>x || d\<close> on an optional string: a missing value and the empty string are
  falsy.\<close>

definition or_else :: "string option \<Rightarrow> string \<Rightarrow> string" where
  "or_else x d = (case x of None \<Rightarrow> d | Some s \<Rightarrow> if s = [] then d else s)"

definition format_item :: "('a \<Rightarrow> number) \<Rightarrow> ('id, 'a) due_item \<Rightarrow> 'id pending_payment" where
  "format_item parseFloat item =
     \<lparr> pp_id = item_id item,
       pp_name = or_else (item_description item) ''Sin nombre'',
       pp_amount = parseFloat (item_amount item),
       pp_dueDate = item_due_date item,
       pp_category = or_else (item_category item) ''Otros'',
       pp_status = or_else (item_status item) ''pendiente'' \<rparr>"

text \<open>The response of \<open>getDueDates\<close>: \<open>response.data\<close> may be missing (reading its
  \<open>data\<close> then throws), and \<open>response.data.data\<close> may be missing.\<close>

datatype 'r due_response = NoBody | Body "'r list option"

text \<open>\<open>fetchPayments\<close> up to its \<open>await\<close>.\<close>

definition fetchPayments_begin :: "'id pending_state \<Rightarrow> 'id pending_state" where
  "fetchPayments_begin st = st\<lparr>pp_loading := True\<rparr>"

text \<open>\<open>fetchPayments\<close> after the \<open>await\<close>.\<close>

definition fetchPayments_settle ::
  "('a \<Rightarrow> number) \<Rightarrow> ('id, 'a) due_item due_response settled \<Rightarrow> 'id pending_state
     \<Rightarrow> 'id pending_state" where
  "fetchPayments_settle parseFloat outcome st =
     (case outcome of
        Fulfilled (Body d) \<Rightarrow>
          st\<lparr>payments := map (format_item parseFloat) (case d of None \<Rightarrow> [] | Some items \<Rightarrow> items),
             pp_loading := False\<rparr>
      | Fulfilled NoBody \<Rightarrow> st\<lparr>pp_error := Some ''Error al cargar pagos'', pp_loading := False\<rparr>
      | Rejected \<Rightarrow> st\<lparr>pp_error := Some ''Error al cargar pagos'', pp_loading := False\<rparr>)"

definition mark_due_status ::
  "'id \<Rightarrow> string \<Rightarrow> 'id pending_payment list \<Rightarrow> 'id pending_payment list" where
  "mark_due_status i newStatus prev =
     map (\<lambda>p. if pp_id p = i then p\<lparr>pp_status := newStatus\<rparr> else p) prev"

text \<open>\<open>updateStatus\<close> of the due items, to the end of its \<open>try\<close>/\<open>catch\<close>. No copy
  of the list is taken. On failure the \<open>catch\<close> starts \<open>fetchPayments\<close> and does not
  wait for it: the handler is complete once that call has reached its own \<open>await\<close>.\<close>

definition pending_updateStatus ::
  "'id \<Rightarrow> string \<Rightarrow> unit settled \<Rightarrow> 'id pending_state \<Rightarrow> 'id pending_state" where
  "pending_updateStatus i newStatus outcome st =
     (let st = st\<lparr>pp_openDropdown := None\<rparr>;
          st = st\<lparr>payments := mark_due_status i newStatus (payments st)\<rparr>
      in case outcome of
           Fulfilled u \<Rightarrow> st
         | Rejected \<Rightarrow> fetchPayments_begin st)"

section \<open>Savings projection (\<open>Dashboard.jsx\<close>, \<open>calculateSavings\<close>)\<close>

record savings_account =
  acc_name :: string
  principal :: real
  annualRate :: real

definition SAVINGS_ACCOUNTS :: "savings_account list" where
  "SAVINGS_ACCOUNTS =
     [\<lparr>acc_name = ''Cajita Turbo '' @ [CHR 0xF0, CHR 0x9F, CHR 0x9A, CHR 0x80],
       principal = 25000.00, annualRate = 0.13\<rparr>,
      \<lparr>acc_name = ''cajita x'', principal = 27711.57, annualRate = 0.07\<rparr>]"

text \<open>The state the function reads and writes: the component's \<open>totalSavings\<close> and
  the \<open>localStorage\<close> item \<open>savingsLastUpdate\<close> (\<open>None\<close> when the key is absent).\<close>

record savings_state =
  totalSavings :: number
  savingsLastUpdate :: "string option"

text \<open>\<open>Math.pow\<close> on a positive base, the only bases the function uses
  (\<open>1 + annualRate / 365\<close> of the two accounts).\<close>

definition Math_pow :: "real \<Rightarrow> real \<Rightarrow> real" where
  "Math_pow b x = b powr x"

fun num_add :: "number \<Rightarrow> number \<Rightarrow> number" where
  "num_add (Num a) (Num b) = Num (a + b)"
| "num_add a b = NaN"

text \<open>One account after \<open>daysPassed\<close> days; \<open>daysPassed\<close> is \<open>NaN\<close> when the stored
  text does not parse.\<close>

definition compound :: "savings_account \<Rightarrow> number \<Rightarrow> number" where
  "compound acc daysPassed =
     (case daysPassed of
        NaN \<Rightarrow> NaN
      | Num d \<Rightarrow> Num (principal acc * Math_pow (1 + annualRate acc / 365) d))"

definition calculateSavings :: "int \<Rightarrow> savings_state \<Rightarrow> number \<times> savings_state" where
  "calculateSavings now st =
     (let lastUpdate = savingsLastUpdate st;
          principal1 = Num (principal (SAVINGS_ACCOUNTS ! 0));
          principal2 = Num (principal (SAVINGS_ACCOUNTS ! 1));
          (principal1, principal2) =
            (case lastUpdate of
               None \<Rightarrow> (principal1, principal2)
             | Some text \<Rightarrow>
                 if text = [] then (principal1, principal2)
                 else
                   (let daysPassed =
                          (case parseInt text of
                             None \<Rightarrow> NaN
                           | Some t0 \<Rightarrow>
                               Num ((real_of_int now - real_of_int t0) / (1000 * 60 * 60 * 24)))
                    in (compound (SAVINGS_ACCOUNTS ! 0) daysPassed,
                        compound (SAVINGS_ACCOUNTS ! 1) daysPassed)));
          total = num_add principal1 principal2
      in (total, \<lparr>totalSavings = total, savingsLastUpdate = Some (toString now)\<rparr>))"

section \<open>Portfolio valuation (\<open>useCryptoPortfolio.js\<close>)\<close>

record holding =
  symbol :: string
  amount :: real
  avgBuyPrice :: real
  realizedProfit :: "real option"

text \<open>A quote of the price feed; either field may be missing.\<close>

record quote =
  usd :: "real option"
  usd_24h_change :: "real option"

text \<open>An element of \<open>portfolioData\<close>: the holding's fields and the computed ones. The
  \<open>logoUrl\<close>, read from a constant table of image addresses, is left out.\<close>

record asset =
  a_symbol :: string
  a_amount :: real
  a_avgBuyPrice :: real
  a_realizedProfit :: "real option"
  a_price :: real
  a_priceChange :: real
  a_value :: real
  a_profit :: real
  a_profitPercent :: real

definition SYMBOL_TO_ID :: "(string \<times> string) list" where
  "SYMBOL_TO_ID =
     [(''LINK'', ''chainlink''), (''XRP'', ''ripple''), (''PEPE'', ''pepe''), (''SUI'', ''sui''),
      (''ONDO'', ''ondo-finance''), (''POPCAT'', ''popcat''), (''UNI'', ''uniswap''),
      (''AERO'', ''aerodrome-finance''), (''ARB'', ''arbitrum'')]"

definition CRYPTO_HOLDINGS :: "holding list" where
  "CRYPTO_HOLDINGS =
     [\<lparr>symbol = ''LINK'', amount = 4.174, avgBuyPrice = 24.38, realizedProfit = None\<rparr>,
      \<lparr>symbol = ''XRP'', amount = 22.12, avgBuyPrice = 0.60, realizedProfit = Some 236\<rparr>,
      \<lparr>symbol = ''PEPE'', amount = 6894366, avgBuyPrice = 0.00000939, realizedProfit = None\<rparr>,
      \<lparr>symbol = ''SUI'', amount = 21.90, avgBuyPrice = 3.50, realizedProfit = None\<rparr>,
      \<lparr>symbol = ''ONDO'', amount = 83.88, avgBuyPrice = 1.045, realizedProfit = None\<rparr>,
      \<lparr>symbol = ''POPCAT'', amount = 259.62, avgBuyPrice = 0.248, realizedProfit = None\<rparr>,
      \<lparr>symbol = ''UNI'', amount = 3.344, avgBuyPrice = 14.71, realizedProfit = None\<rparr>,
      \<lparr>symbol = ''AERO'', amount = 15.00, avgBuyPrice = 1.60, realizedProfit = None\<rparr>,
      \<lparr>symbol = ''ARB'', amount = 25.06, avgBuyPrice = 1.045, realizedProfit = None\<rparr>]"

text \<open>\<open>x || 0\<close> on an optional number.\<close>

definition or_zero :: "real option \<Rightarrow> real" where
  "or_zero x = (case x of None \<Rightarrow> 0 | Some v \<Rightarrow> v)"

text \<open>The callback of \<open>CRYPTO_HOLDINGS.map\<close>. A symbol without an entry in
  \<open>SYMBOL_TO_ID\<close> gives the key \<open>undefined\<close>; a price map without the key gives the
  empty quote \<open>{}\<close>.\<close>

definition valuate :: "(string \<rightharpoonup> quote) \<Rightarrow> holding \<Rightarrow> asset" where
  "valuate prices h =
     (let id = (case map_of SYMBOL_TO_ID (symbol h) of None \<Rightarrow> ''undefined'' | Some i \<Rightarrow> i);
          priceData = (case prices id of None \<Rightarrow> \<lparr>usd = None, usd_24h_change = None\<rparr> | Some q \<Rightarrow> q);
          currentPrice = or_zero (usd priceData);
          priceChange = or_zero (usd_24h_change priceData);
          val = amount h * currentPrice;
          initialInvestment = amount h * avgBuyPrice h;
          profit = (val - initialInvestment) + or_zero (realizedProfit h);
          profitPercent = (if initialInvestment > 0 then (profit / initialInvestment) * 100 else 0)
      in \<lparr> a_symbol = symbol h, a_amount = amount h, a_avgBuyPrice = avgBuyPrice h,
            a_realizedProfit = realizedProfit h, a_price = currentPrice,
            a_priceChange = priceChange, a_value = val, a_profit = profit,
            a_profitPercent = profitPercent \<rparr>)"

definition portfolioData :: "(string \<rightharpoonup> quote) \<Rightarrow> asset list" where
  "portfolioData prices = map (valuate prices) CRYPTO_HOLDINGS"

text \<open>The state of the hook. \<open>lastUpdated\<close> holds the time of the last successful
  poll, in milliseconds.\<close>

record crypto_state =
  prices :: "string \<rightharpoonup> quote"
  c_loading :: bool
  c_error :: "string option"
  lastUpdated :: "int option"

text \<open>\<open>fetchPrices\<close>, given the time and the outcome of \<open>getCryptoPrices\<close>. A
  fulfilled response carries \<open>response.data\<close> (possibly missing) and in it
  \<open>data\<close> (possibly missing).\<close>

definition fetchPrices ::
  "int \<Rightarrow> (string \<rightharpoonup> quote) option option settled \<Rightarrow> crypto_state \<Rightarrow> crypto_state" where
  "fetchPrices now outcome st =
     (let st = st\<lparr>c_loading := True\<rparr>;
          st = (case outcome of
                  Fulfilled (Some (Some d)) \<Rightarrow>
                    st\<lparr>prices := d, lastUpdated := Some now, c_error := None\<rparr>
                | Fulfilled r \<Rightarrow> st
                | Rejected \<Rightarrow> st\<lparr>c_error := Some ''Error updating prices''\<rparr>)
      in st\<lparr>c_loading := False\<rparr>)"

section \<open>Dashboard loading (\<open>Dashboard.jsx\<close>, \<open>fetchAllData\<close>)\<close>

text \<open>The payloads are opaque to the function; \<open>'j\<close> is their type. A response's
  \<open>data\<close> may be missing (\<open>None\<close>). The list endpoints wrap the list once more:
  \<open>value.data?.data || []\<close>.\<close>

record 'j dashboard_state =
  d_loading :: bool
  d_refreshing :: bool
  d_error :: "string option"
  summary :: "'j option"
  cashflow :: "'j list"
  tagDistribution :: "'j list"
  categoryDistribution :: "'j list"
  calendar :: "'j option"
  savings :: "'j option"
  d_transactions :: "'j option"

text \<open>The seven settled results of \<open>Promise.allSettled\<close>, in the order of the
  destructuring.\<close>

record 'j dashboard_results =
  summaryRes :: "'j option settled"
  cashflowRes :: "'j list option option settled"
  tagRes :: "'j list option option settled"
  calendarRes :: "'j option settled"
  savingsRes :: "'j option settled"
  transactionsRes :: "'j option settled"
  categoryRes :: "'j list option option settled"

definition rejected :: "'a settled \<Rightarrow> bool" where
  "rejected r = (case r of Rejected \<Rightarrow> True | Fulfilled v \<Rightarrow> False)"

text \<open>\<open>if (r.status === 'fulfilled') set(r.value.data)\<close>.\<close>

definition keep_or_set :: "'a \<Rightarrow> 'a settled \<Rightarrow> 'a" where
  "keep_or_set old r = (case r of Rejected \<Rightarrow> old | Fulfilled v \<Rightarrow> v)"

text \<open>\<open>if (r.status === 'fulfilled') set(r.value.data?.data || [])\<close>.\<close>

definition keep_or_set_list :: "'a list \<Rightarrow> 'a list option option settled \<Rightarrow> 'a list" where
  "keep_or_set_list old r =
     (case r of
        Rejected \<Rightarrow> old
      | Fulfilled v \<Rightarrow> (case v of Some (Some xs) \<Rightarrow> xs | _ \<Rightarrow> []))"

definition all_rejected :: "'j dashboard_results \<Rightarrow> bool" where
  "all_rejected rs =
     (rejected (summaryRes rs) \<and> rejected (cashflowRes rs) \<and> rejected (tagRes rs)
      \<and> rejected (calendarRes rs) \<and> rejected (savingsRes rs)
      \<and> rejected (transactionsRes rs) \<and> rejected (categoryRes rs))"

text \<open>\<open>fetchAllData(showLoading)\<close>, given the settled results. Nothing in the
  \<open>try\<close> block throws on responses of this shape, so its \<open>catch\<close> has no case
  here.\<close>

definition fetchAllData ::
  "bool \<Rightarrow> 'j dashboard_results \<Rightarrow> 'j dashboard_state \<Rightarrow> 'j dashboard_state" where
  "fetchAllData showLoading rs st =
     (let st = (if showLoading then st\<lparr>d_loading := True\<rparr> else st);
          st = st\<lparr>d_error := None\<rparr>;
          st = st\<lparr>summary := keep_or_set (summary st) (summaryRes rs)\<rparr>;
          st = st\<lparr>cashflow := keep_or_set_list (cashflow st) (cashflowRes rs)\<rparr>;
          st = st\<lparr>tagDistribution := keep_or_set_list (tagDistribution st) (tagRes rs)\<rparr>;
          st = st\<lparr>calendar := keep_or_set (calendar st) (calendarRes rs)\<rparr>;
          st = st\<lparr>savings := keep_or_set (savings st) (savingsRes rs)\<rparr>;
          st = st\<lparr>d_transactions := keep_or_set (d_transactions st) (transactionsRes rs)\<rparr>;
          st = st\<lparr>categoryDistribution :=
                    keep_or_set_list (categoryDistribution st) (categoryRes rs)\<rparr>;
          st = (if all_rejected rs
                then st\<lparr>d_error := Some ''Error al cargar los datos. Por favor intenta de nuevo.''\<rparr>
                else st)
      in st\<lparr>d_loading := False, d_refreshing := False\<rparr>)"

section \<open>Notions used to state the properties\<close>

text \<open>The recurring transactions of a payload, each with the date of its day, in the
  order in which the two loops visit them.\<close>

definition sightings :: "'id calendar_day list \<Rightarrow> (string \<times> 'id transaction) list" where
  "sightings days =
     concat (map (\<lambda>day. case transactions day of
                           None \<Rightarrow> []
                         | Some txs \<Rightarrow> map (\<lambda>tx. (day_date day, tx)) (filter is_recurring txs))
                 days)"

text \<open>The number of recurring transactions of a payload that carry a description.\<close>

definition occurrences :: "string \<Rightarrow> 'id calendar_day list \<Rightarrow> nat" where
  "occurrences name days =
     length (filter (\<lambda>x. description (snd x) = name) (sightings days))"

text \<open>The first sighting of every description, in the order of the sightings.\<close>

fun first_sightings :: "(string \<times> 'id transaction) list \<Rightarrow> (string \<times> 'id transaction) list" where
  "first_sightings [] = []"
| "first_sightings (x # xs) =
     x # filter (\<lambda>y. description (snd y) \<noteq> description (snd x)) (first_sightings xs)"

text \<open>The specification's name test, in its own words: the name contains
  \<open>semanal\<close>, each letter in either case. It is compared with the code's
  \<open>name.toLowerCase().includes('semanal')\<close> in lemma \<open>name_test_iff\<close>.\<close>

definition mentions_semanal :: "string \<Rightarrow> bool" where
  "mentions_semanal name =
     (\<exists>u w v. name = u @ w @ v
        \<and> list_all2 (\<lambda>c letters. c \<in> set letters) w
             [''sS'', ''eE'', ''mM'', ''aA'', ''nN'', ''aA'', ''lL''])"

text \<open>The status vocabulary of the data model.\<close>

definition status_vocabulary :: "string set" where
  "status_vocabulary = {''pendiente'', ''pagado'', ''vencido''}"

section \<open>Example payloads\<close>

definition recurring_tx :: "nat \<Rightarrow> string \<Rightarrow> real \<Rightarrow> string option \<Rightarrow> nat transaction" where
  "recurring_tx i d a st =
     \<lparr>tx_id = i, description = d, tx_amount = a, tx_category = ''Hogar'', is_recurring = True,
      payment_status = st\<rparr>"

text \<open>A month with a weekly payment, two monthly payments of the same amount, a payment
  seen three times, one named weekly, a day without transactions and a transaction that
  is not recurring.\<close>

definition may_days :: "nat calendar_day list" where
  "may_days =
     [\<lparr>day_date = ''2024-05-01'', transactions = Some
         [recurring_tx 1 ''Gym'' 100 None, recurring_tx 2 ''Renta'' 100 (Some ''pagado''),
          recurring_tx 3 ''Luz'' 50 None,
          \<lparr>tx_id = 4, description = ''Cafe'', tx_amount = 30, tx_category = ''Comida'',
           is_recurring = False, payment_status = None\<rparr>]\<rparr>,
      \<lparr>day_date = ''2024-05-05'', transactions = None\<rparr>,
      \<lparr>day_date = ''2024-05-08'', transactions = Some
         [recurring_tx 5 ''Gym'' 100 None, recurring_tx 6 ''Agua'' 100 (Some ''vencido''),
          recurring_tx 7 ''Luz'' 50 None]\<rparr>,
      \<lparr>day_date = ''2024-05-15'', transactions = Some
         [recurring_tx 8 ''Gym'' 100 None, recurring_tx 9 ''Luz'' 50 None]\<rparr>,
      \<lparr>day_date = ''2024-05-22'', transactions = Some
         [recurring_tx 10 ''Gym'' 100 None, recurring_tx 11 ''Ahorro Semanal'' 20 (Some '''')]\<rparr>]"

text \<open>A month whose only recurring transaction is described as \<open>constructor\<close>.\<close>

definition builder_once :: "nat calendar_day list" where
  "builder_once =
     [\<lparr>day_date = ''2024-05-03'', transactions = Some
         [recurring_tx 1 ''constructor'' 1500 None]\<rparr>]"

text \<open>The same payment on two days, the first without a status, the second paid.\<close>

definition builder_twice :: "nat calendar_day list" where
  "builder_twice =
     [\<lparr>day_date = ''2024-05-03'', transactions = Some
         [recurring_tx 1 ''constructor'' 1500 None]\<rparr>,
      \<lparr>day_date = ''2024-05-17'', transactions = Some
         [recurring_tx 2 ''constructor'' 1500 (Some ''pagado'')]\<rparr>]"

text \<open>Two monthly payments of the same amount; the later one is described by the number
  \<open>365\<close>.\<close>

definition numbered_days :: "nat calendar_day list" where
  "numbered_days =
     [\<lparr>day_date = ''2024-05-01'', transactions = Some [recurring_tx 1 ''Netflix'' 100 None]\<rparr>,
      \<lparr>day_date = ''2024-05-02'', transactions = Some [recurring_tx 2 ''365'' 100 None]\<rparr>]"

section \<open>Properties of the built-ins\<close>

text \<open>Reading back the decimal text of an integer gives the integer.\<close>

lemma is_digit_digit_char: "d < 10 \<Longrightarrow> is_digit (digit_char d)"
  by (simp add: is_digit_def digit_char_def)

lemma digit_val_digit_char: "d < 10 \<Longrightarrow> digit_val (digit_char d) = d"
  by (simp add: digit_val_def digit_char_def)

lemma digits_nonempty: "digits n \<noteq> []"
  by (subst digits.simps) simp

lemma digits_all_digit: "list_all is_digit (digits n)"
proof (induction n rule: digits.induct)
  case (1 n)
  show ?case
  proof (cases "n < 10")
    case True
    then show ?thesis by (subst digits.simps) (simp add: is_digit_digit_char)
  next
    case False
    with 1 show ?thesis by (subst digits.simps) (simp add: is_digit_digit_char)
  qed
qed

lemma radix_value_snoc: "radix_value r val (s @ [c]) = r * radix_value r val s + val c"
  by (simp add: radix_value_def)

lemma radix_value_digits: "radix_value 10 digit_val (digits n) = n"
proof (induction n rule: digits.induct)
  case (1 n)
  show ?case
  proof (cases "n < 10")
    case True
    then show ?thesis
      by (subst digits.simps) (simp add: radix_value_def digit_val_digit_char)
  next
    case False
    with 1 have "radix_value 10 digit_val (digits (n div 10)) = n div 10" by simp
    with False show ?thesis
      by (subst digits.simps) (simp add: radix_value_snoc digit_val_digit_char)
  qed
qed

lemma is_digit_not_special:
  "is_digit c \<Longrightarrow> \<not> is_space c \<and> c \<noteq> CHR ''-'' \<and> c \<noteq> CHR ''+'' \<and> c \<noteq> CHR ''x'' \<and> c \<noteq> CHR ''X''"
  by (auto simp: is_digit_def is_space_def)

lemma startsWith_0x_digits:
  "list_all is_digit s \<Longrightarrow> \<not> startsWith s ''0x'' \<and> \<not> startsWith s ''0X''"
proof (cases s)
  case Nil
  then show ?thesis by simp
next
  case (Cons a t)
  assume d: "list_all is_digit s"
  show ?thesis
  proof (cases t)
    case Nil
    with Cons show ?thesis by simp
  next
    case (Cons b u)
    with \<open>s = a # t\<close> d have "is_digit b" by simp
    then have "b \<noteq> CHR ''x''" "b \<noteq> CHR ''X''" using is_digit_not_special by blast+
    with Cons \<open>s = a # t\<close> show ?thesis by simp
  qed
qed

lemma takeWhile_all: "list_all P s \<Longrightarrow> takeWhile P s = s"
  by (induction s) simp_all

lemma parse_magnitude_digits: "parse_magnitude (digits n) = Some n"
  using startsWith_0x_digits [OF digits_all_digit, of n]
  by (simp add: parse_magnitude_def takeWhile_all [OF digits_all_digit] digits_nonempty
      radix_value_digits)

lemma digits_head: "\<exists>c cs. digits n = c # cs \<and> is_digit c"
  using digits_nonempty [of n] digits_all_digit [of n] by (cases "digits n") auto

lemma parseInt_digits: "parseInt (digits n) = Some (int n)"
proof -
  obtain c cs where e: "digits n = c # cs" and d: "is_digit c"
    using digits_head by blast
  from d have s: "\<not> is_space c" "c \<noteq> CHR ''-''" "c \<noteq> CHR ''+''"
    using is_digit_not_special by blast+
  have "parse_magnitude (c # cs) = Some n"
    using parse_magnitude_digits [of n] e by simp
  with s e show ?thesis by (simp add: parseInt_def)
qed

lemma toString_nonempty: "toString i \<noteq> []"
  by (simp add: toString_def digits_nonempty)

lemma parseInt_toString: "parseInt (toString i) = Some i"
proof (cases "i < 0")
  case True
  have "\<not> is_space CHR ''-''" by (simp add: is_space_def)
  with True show ?thesis
    by (simp add: toString_def parseInt_def parse_magnitude_digits)
next
  case False
  then show ?thesis by (simp add: toString_def parseInt_digits)
qed

text \<open>\<open>startsWith\<close> and \<open>includes\<close> find the text at the start and at some
  position; lowering a name and searching it for \<open>semanal\<close> is the specification's
  name test.\<close>

lemma startsWith_iff: "startsWith s p \<longleftrightarrow> (\<exists>v. s = p @ v)"
  by (induction s p rule: startsWith.induct) auto

lemma str_includes_iff: "str_includes s sub \<longleftrightarrow> (\<exists>u v. s = u @ sub @ v)"
proof (induction s)
  case Nil
  then show ?case by auto
next
  case (Cons c cs)
  show ?case
  proof
    assume "str_includes (c # cs) sub"
    then consider "startsWith (c # cs) sub" | "str_includes cs sub" by auto
    then show "\<exists>u v. c # cs = u @ sub @ v"
    proof cases
      case 1
      then obtain v where "c # cs = sub @ v" using startsWith_iff by blast
      then have "c # cs = [] @ sub @ v" by simp
      then show ?thesis by blast
    next
      case 2
      with Cons obtain u v where "cs = u @ sub @ v" by blast
      then have "c # cs = (c # u) @ sub @ v" by simp
      then show ?thesis by blast
    qed
  next
    assume "\<exists>u v. c # cs = u @ sub @ v"
    then obtain u v where e: "c # cs = u @ sub @ v" by blast
    show "str_includes (c # cs) sub"
    proof (cases u)
      case Nil
      with e have "startsWith (c # cs) sub" using startsWith_iff by auto
      then show ?thesis by simp
    next
      case (Cons a u')
      with e have "cs = u' @ sub @ v" by simp
      with Cons.IH have "str_includes cs sub" by blast
      then show ?thesis by simp
    qed
  qed
qed

lemma lower_char_eq_iff:
  assumes "97 \<le> (of_char l :: nat)" "(of_char l :: nat) \<le> 122"
  shows "lower_char c = l \<longleftrightarrow> c = l \<or> c = char_of ((of_char l :: nat) - 32)"
proof -
  let ?n = "of_char c :: nat"
  show ?thesis
  proof (cases "65 \<le> ?n \<and> ?n \<le> 90")
    case True
    then have t: "take_bit 8 (?n + 32) = ?n + 32" by (simp add: take_bit_nat_eq_self)
    from assms have t': "take_bit 8 ((of_char l :: nat) - 32) = (of_char l :: nat) - 32"
      by (simp add: take_bit_nat_eq_self)
    from True have "lower_char c = char_of (?n + 32)" by (simp add: lower_char_def)
    moreover have "char_of (?n + 32) = l \<longleftrightarrow> ?n + 32 = of_char l"
      by (simp add: char_of_eq_iff t)
    moreover have "c = char_of ((of_char l :: nat) - 32) \<longleftrightarrow> ?n = (of_char l :: nat) - 32"
      using char_of_eq_iff [of "(of_char l :: nat) - 32" c] t' by auto
    moreover have "?n + 32 = of_char l \<longleftrightarrow> ?n = (of_char l :: nat) - 32"
      using assms by auto
    moreover have "c \<noteq> l" using True assms by auto
    ultimately show ?thesis by simp
  next
    case False
    then have "lower_char c = c" by (auto simp: lower_char_def)
    moreover have "c \<noteq> char_of ((of_char l :: nat) - 32)"
    proof
      assume "c = char_of ((of_char l :: nat) - 32)"
      then have "?n = (of_char l :: nat) - 32" using assms by (simp add: take_bit_nat_eq_self)
      with False assms show False by auto
    qed
    ultimately show ?thesis by auto
  qed
qed

lemma capital_letters:
  "char_of (83 :: nat) = CHR ''S''" "char_of (69 :: nat) = CHR ''E''"
  "char_of (77 :: nat) = CHR ''M''" "char_of (65 :: nat) = CHR ''A''"
  "char_of (78 :: nat) = CHR ''N''" "char_of (76 :: nat) = CHR ''L''"
  by (simp_all add: char_of_eq_iff)

lemma lower_char_s: "lower_char c = CHR ''s'' \<longleftrightarrow> c \<in> set ''sS''"
  using lower_char_eq_iff [of "CHR ''s''" c] by (simp add: capital_letters)

lemma lower_char_e: "lower_char c = CHR ''e'' \<longleftrightarrow> c \<in> set ''eE''"
  using lower_char_eq_iff [of "CHR ''e''" c] by (simp add: capital_letters)

lemma lower_char_m: "lower_char c = CHR ''m'' \<longleftrightarrow> c \<in> set ''mM''"
  using lower_char_eq_iff [of "CHR ''m''" c] by (simp add: capital_letters)

lemma lower_char_a: "lower_char c = CHR ''a'' \<longleftrightarrow> c \<in> set ''aA''"
  using lower_char_eq_iff [of "CHR ''a''" c] by (simp add: capital_letters)

lemma lower_char_n: "lower_char c = CHR ''n'' \<longleftrightarrow> c \<in> set ''nN''"
  using lower_char_eq_iff [of "CHR ''n''" c] by (simp add: capital_letters)

lemma lower_char_l: "lower_char c = CHR ''l'' \<longleftrightarrow> c \<in> set ''lL''"
  using lower_char_eq_iff [of "CHR ''l''" c] by (simp add: capital_letters)

lemmas lower_char_letters =
  lower_char_s lower_char_e lower_char_m lower_char_a lower_char_n lower_char_l

lemma lowered_is_semanal:
  "toLowerCase w = ''semanal'' \<longleftrightarrow>
     list_all2 (\<lambda>c letters. c \<in> set letters) w
       [''sS'', ''eE'', ''mM'', ''aA'', ''nN'', ''aA'', ''lL'']"
  by (simp add: toLowerCase_def list_all2_Cons2 map_eq_Cons_conv lower_char_letters)


lemma map_infix_iff:
  "(\<exists>u' v'. map f xs = u' @ p @ v') \<longleftrightarrow> (\<exists>u w v. xs = u @ w @ v \<and> map f w = p)"
proof
  assume "\<exists>u' v'. map f xs = u' @ p @ v'"
  then obtain u' v' where e: "map f xs = u' @ (p @ v')" by blast
  from e [unfolded map_eq_append_conv]
  obtain u r where n: "xs = u @ r" and r: "map f r = p @ v'" by auto
  from r [unfolded map_eq_append_conv]
  obtain w v where "r = w @ v" and "map f w = p" by auto
  with n have "xs = u @ w @ v \<and> map f w = p" by simp
  then show "\<exists>u w v. xs = u @ w @ v \<and> map f w = p" by (intro exI)
next
  assume "\<exists>u w v. xs = u @ w @ v \<and> map f w = p"
  then obtain u w v where "xs = u @ w @ v" and "map f w = p" by auto
  then have "map f xs = map f u @ p @ map f v" by simp
  then show "\<exists>u' v'. map f xs = u' @ p @ v'" by (intro exI)
qed

lemma name_test_iff: "str_includes (toLowerCase name) ''semanal'' \<longleftrightarrow> mentions_semanal name"
proof -
  have "str_includes (toLowerCase name) ''semanal''
      \<longleftrightarrow> (\<exists>u' v'. map lower_char name = u' @ ''semanal'' @ v')"
    unfolding str_includes_iff toLowerCase_def ..
  also have "\<dots> \<longleftrightarrow> (\<exists>u w v. name = u @ w @ v \<and> map lower_char w = ''semanal'')"
    by (rule map_infix_iff)
  also have "\<dots> \<longleftrightarrow> mentions_semanal name"
    unfolding mentions_semanal_def lowered_is_semanal [symmetric] toLowerCase_def ..
  finally show ?thesis .
qed

section \<open>Properties of the calendar aggregation\<close>

subsection \<open>The loops as one pass over the sightings\<close>

lemma visit_tx_not_recurring: "\<not> is_recurring tx \<Longrightarrow> visit_tx date tx tabs = tabs"
  by (simp add: visit_tx_def)

lemma visit_tx_recurring:
  "is_recurring tx \<Longrightarrow>
   visit_tx date tx (pc, pd) =
     (if truthy (getCount pc (description tx))
      then (setCount pc (description tx) (increment (getCount pc (description tx))), pd)
      else (setCount (setCount pc (description tx) (Count 0)) (description tx)
              (increment (getCount (setCount pc (description tx) (Count 0)) (description tx))),
            setData pd (description tx) (seed_of date tx)))"
  by (simp add: visit_tx_def Let_def)

lemma fold_visit_tx:
  "fold (visit_tx date) txs tabs
     = fold (\<lambda>x. visit_tx (fst x) (snd x)) (map (\<lambda>tx. (date, tx)) (filter is_recurring txs)) tabs"
  by (induction txs arbitrary: tabs) (simp_all add: visit_tx_not_recurring)

lemma sightings_Cons:
  "sightings (day # days) = sightings [day] @ sightings days"
  by (simp add: sightings_def)

lemma visit_day_sightings:
  "visit_day day tabs = fold (\<lambda>x. visit_tx (fst x) (snd x)) (sightings [day]) tabs"
  by (simp add: visit_day_def sightings_def fold_visit_tx split: option.splits)

lemma fold_visit_day:
  "fold visit_day days tabs = fold (\<lambda>x. visit_tx (fst x) (snd x)) (sightings days) tabs"
proof (induction days arbitrary: tabs)
  case Nil
  then show ?case by (simp add: sightings_def)
next
  case (Cons day days)
  show ?case
    by (subst sightings_Cons) (simp add: Cons.IH visit_day_sightings)
qed

lemma scan_days_sightings:
  "scan_days days = fold (\<lambda>x. visit_tx (fst x) (snd x)) (sightings days) (Map.empty, [])"
  by (simp add: scan_days_def fold_visit_day)

lemma sightings_recurring: "x \<in> set (sightings days) \<Longrightarrow> is_recurring (snd x)"
  by (auto simp: sightings_def split: option.splits)

subsection \<open>What the tables hold, whatever the descriptions\<close>

lemma set_update_subset: "set (AList.update k v al) \<subseteq> insert (k, v) (set al)"
  by (induction al) auto

lemma set_setData_subset: "set (setData pd k v) \<subseteq> insert (k, v) (set pd)"
  using set_update_subset [of k v pd] by (auto simp: setData_def)

lemma keys_setData:
  "k \<noteq> ''__proto__'' \<Longrightarrow> fst ` set (setData pd k v) = insert k (fst ` set pd)"
  by (simp add: setData_def AList.dom_update)

lemma getCount_proto:
  "pc ''__proto__'' = None \<Longrightarrow> truthy (getCount pc ''__proto__'')"
  by (simp add: getCount_def Object_prototype_names_def)

text \<open>The names of \<open>paymentData\<close> are distinct.\<close>

lemma visit_tx_distinct:
  "distinct (map fst (snd tabs)) \<Longrightarrow> distinct (map fst (snd (visit_tx date tx tabs)))"
  by (cases tabs) (simp add: visit_tx_def Let_def setData_def AList.distinct_update)

lemma fold_visit_tx_distinct:
  "distinct (map fst (snd tabs)) \<Longrightarrow> distinct (map fst (snd (fold (visit_tx date) txs tabs)))"
  by (induction txs arbitrary: tabs) (simp_all add: visit_tx_distinct)

lemma visit_day_distinct:
  "distinct (map fst (snd tabs)) \<Longrightarrow> distinct (map fst (snd (visit_day day tabs)))"
  by (simp add: visit_day_def fold_visit_tx_distinct split: option.splits)

lemma fold_visit_day_distinct:
  "distinct (map fst (snd tabs)) \<Longrightarrow> distinct (map fst (snd (fold visit_day days tabs)))"
  by (induction days arbitrary: tabs) (simp_all add: visit_day_distinct)

lemma scan_days_distinct_names: "distinct (map fst (snd (scan_days days)))"
  by (simp add: scan_days_def fold_visit_day_distinct)

text \<open>Every seed was built from a sighting of its own name.\<close>

lemma seeds_from_sightings:
  "\<forall>x \<in> set os. is_recurring (snd x) \<Longrightarrow>
   (k, sd) \<in> set (snd (fold (\<lambda>x. visit_tx (fst x) (snd x)) os (pc0, []))) \<Longrightarrow>
   \<exists>x \<in> set os. k = description (snd x) \<and> sd = seed_of (fst x) (snd x)"
proof (induction os arbitrary: k sd rule: rev_induct)
  case Nil
  then show ?case by simp
next
  case (snoc x os)
  obtain pc pd where t: "fold (\<lambda>x. visit_tx (fst x) (snd x)) os (pc0, []) = (pc, pd)"
    by (cases "fold (\<lambda>x. visit_tx (fst x) (snd x)) os (pc0, [])")
  from snoc.prems have r: "is_recurring (snd x)" and ro: "\<forall>y \<in> set os. is_recurring (snd y)"
    by simp_all
  have "set (snd (visit_tx (fst x) (snd x) (pc, pd)))
      \<subseteq> insert (description (snd x), seed_of (fst x) (snd x)) (set pd)"
    using set_setData_subset [of pd "description (snd x)" "seed_of (fst x) (snd x)"]
    by (auto simp: visit_tx_recurring [OF r])
  with snoc.prems(2) t have
    "(k, sd) = (description (snd x), seed_of (fst x) (snd x)) \<or> (k, sd) \<in> set pd"
    by auto
  then show ?case
  proof
    assume "(k, sd) = (description (snd x), seed_of (fst x) (snd x))"
    then show ?thesis by auto
  next
    assume "(k, sd) \<in> set pd"
    with snoc.IH [OF ro, of k sd] t show ?thesis by auto
  qed
qed

lemma scan_days_seed_names:
  "(k, sd) \<in> set (snd (scan_days days)) \<Longrightarrow> s_name sd = k"
proof -
  assume a: "(k, sd) \<in> set (snd (scan_days days))"
  have "\<forall>x \<in> set (sightings days). is_recurring (snd x)"
    using sightings_recurring by blast
  from seeds_from_sightings [OF this] a obtain x where
    "k = description (snd x)" "sd = seed_of (fst x) (snd x)"
    unfolding scan_days_sightings by blast
  then show ?thesis by (simp add: seed_of_def)
qed

text \<open>Every name of \<open>paymentData\<close> has a positive number in \<open>paymentCounts\<close>.\<close>

lemma counted_invariant:
  "\<forall>x \<in> set os. is_recurring (snd x) \<Longrightarrow>
   fold (\<lambda>x. visit_tx (fst x) (snd x)) os (Map.empty, []) = (pc, pd) \<Longrightarrow>
   pc ''__proto__'' = None \<and> (\<forall>k \<in> fst ` set pd. \<exists>c. 0 < c \<and> pc k = Some (Count c))"
proof (induction os arbitrary: pc pd rule: rev_induct)
  case Nil
  then show ?case by auto
next
  case (snoc x os)
  obtain qc qd where t: "fold (\<lambda>x. visit_tx (fst x) (snd x)) os (Map.empty, []) = (qc, qd)"
    by (cases "fold (\<lambda>x. visit_tx (fst x) (snd x)) os (Map.empty, [])")
  from snoc.prems have r: "is_recurring (snd x)" and ro: "\<forall>y \<in> set os. is_recurring (snd y)"
    by simp_all
  from snoc.IH [OF ro t] have p: "qc ''__proto__'' = None"
    and c: "\<forall>k \<in> fst ` set qd. \<exists>c. 0 < c \<and> qc k = Some (Count c)" by simp_all
  let ?n = "description (snd x)"
  from snoc.prems(2) t have s: "visit_tx (fst x) (snd x) (qc, qd) = (pc, pd)" by simp
  show ?case
  proof (cases "truthy (getCount qc ?n)")
    case True
    with s r have pc: "pc = setCount qc ?n (increment (getCount qc ?n))" and pd: "pd = qd"
      by (simp_all add: visit_tx_recurring)
    have "\<exists>c. 0 < c \<and> pc k = Some (Count c)" if "k \<in> fst ` set pd" for k
    proof -
      from that pd c obtain c where c: "0 < c" "qc k = Some (Count c)" by blast
      show ?thesis
      proof (cases "k = ?n")
        case True
        with c p have "k \<noteq> ''__proto__''" by auto
        with True c show ?thesis by (simp add: pc setCount_def getCount_def)
      next
        case False
        with c show ?thesis by (simp add: pc setCount_def)
      qed
    qed
    moreover have "pc ''__proto__'' = None" using p by (simp add: pc setCount_def)
    ultimately show ?thesis by blast
  next
    case False
    with p have n: "?n \<noteq> ''__proto__''" using getCount_proto by metis
    from False s r n have pc: "pc = qc(?n \<mapsto> Count 1)"
      and pd: "pd = setData qd ?n (seed_of (fst x) (snd x))"
      by (simp_all add: visit_tx_recurring setCount_def getCount_def)
    have "\<exists>c. 0 < c \<and> pc k = Some (Count c)" if "k \<in> fst ` set pd" for k
    proof (cases "k = ?n")
      case True
      then show ?thesis by (simp add: pc)
    next
      case False
      with that n have "k \<in> fst ` set qd" by (simp add: pd keys_setData)
      with c obtain c' where "0 < c'" "qc k = Some (Count c')" by blast
      with False show ?thesis by (simp add: pc)
    qed
    moreover have "pc ''__proto__'' = None" using p n by (simp add: pc)
    ultimately show ?thesis by blast
  qed
qed

lemma scan_days_counted:
  "(k, sd) \<in> set (snd (scan_days days)) \<Longrightarrow>
   \<exists>c. 0 < c \<and> getCount (fst (scan_days days)) k = Count c"
proof -
  assume a: "(k, sd) \<in> set (snd (scan_days days))"
  have r: "\<forall>x \<in> set (sightings days). is_recurring (snd x)"
    using sightings_recurring by blast
  obtain pc pd where t: "scan_days days = (pc, pd)" by (cases "scan_days days")
  from counted_invariant [OF r, of pc pd] t
  have "\<forall>k \<in> fst ` set pd. \<exists>c. 0 < c \<and> pc k = Some (Count c)"
    by (simp add: scan_days_sightings)
  moreover from a t have "k \<in> fst ` set pd" by force
  ultimately obtain c where "0 < c" "pc k = Some (Count c)" by blast
  with t show ?thesis by (auto simp: getCount_def)
qed

subsection \<open>The enumeration order and the sort\<close>

lemma set_own_enumerable: "set (own_enumerable obj) = set obj"
  by (auto simp: own_enumerable_def)

lemma own_enumerable_no_index:
  "\<forall>k \<in> fst ` set obj. \<not> is_array_index k \<Longrightarrow> own_enumerable obj = obj"
proof -
  assume a: "\<forall>k \<in> fst ` set obj. \<not> is_array_index k"
  then have "filter (\<lambda>(k, v). is_array_index k) obj = []"
    by (auto simp: filter_empty_conv)
  moreover from a have "filter (\<lambda>(k, v). \<not> is_array_index k) obj = obj"
    by (auto simp: filter_id_conv)
  ultimately show ?thesis by (simp add: own_enumerable_def)
qed

lemma set_aggregate: "set (aggregate days) = set (allRecurring (scan_days days))"
  by (simp add: aggregate_def sort_desc_def)

lemma allRecurring_entry:
  "e \<in> set (allRecurring (scan_days days)) \<Longrightarrow>
   \<exists>k sd. (k, sd) \<in> set (snd (scan_days days)) \<and> s_name sd = k
     \<and> e = build_entry k sd (count_of (fst (scan_days days)) k)"
proof -
  assume "e \<in> set (allRecurring (scan_days days))"
  then obtain k sd where m: "(k, sd) \<in> set (snd (scan_days days))"
    and e: "e = build_entry k sd (count_of (fst (scan_days days)) k)"
    by (auto simp: allRecurring_def set_own_enumerable)
  from m have "s_name sd = k" by (rule scan_days_seed_names)
  with m e show ?thesis by blast
qed

lemma allRecurring_names:
  "map p_name (allRecurring (scan_days days)) = map fst (own_enumerable (snd (scan_days days)))"
proof -
  have "p_name (build_entry k sd (count_of (fst (scan_days days)) k)) = k"
    if "(k, sd) \<in> set (own_enumerable (snd (scan_days days)))" for k sd
    using that scan_days_seed_names [of k sd days]
    by (simp add: set_own_enumerable build_entry_def)
  then show ?thesis
    by (auto simp: allRecurring_def)
qed

lemma sort_desc_sorted: "sorted_wrt (\<lambda>a b. monthlyTotal a \<ge> monthlyTotal b) (sort_desc ps)"
proof -
  have "sorted (map (\<lambda>p. - monthlyTotal p) (sort_desc ps))"
    by (simp add: sort_desc_def)
  then show ?thesis by (simp add: sorted_map)
qed

lemma sort_desc_stable:
  "filter (\<lambda>e. monthlyTotal e = v) (sort_desc ps) = filter (\<lambda>e. monthlyTotal e = v) ps"
proof -
  have "(\<lambda>e. monthlyTotal e = v) = (\<lambda>e. - monthlyTotal e = - v)" by auto
  then show ?thesis
    using sort_key_stable [of "\<lambda>p. - monthlyTotal p" "- v" ps] by (simp add: sort_desc_def)
qed

subsection \<open>The tables when no description is a member name of \<open>Object.prototype\<close>\<close>

lemma first_sightings_names:
  "(\<lambda>x. description (snd x)) ` set (first_sightings os) = (\<lambda>x. description (snd x)) ` set os"
proof (induction os)
  case Nil
  then show ?case by simp
next
  case (Cons a os)
  have "(\<lambda>x. description (snd x)) ` set (filter (\<lambda>y. description (snd y) \<noteq> description (snd a))
            (first_sightings os))
      = (\<lambda>x. description (snd x)) ` set (first_sightings os) - {description (snd a)}"
    by auto
  with Cons show ?case by auto
qed

lemma first_sightings_snoc:
  "first_sightings (os @ [x]) =
     (if description (snd x) \<in> (\<lambda>y. description (snd y)) ` set os then first_sightings os
      else first_sightings os @ [x])"
  by (induction os) auto

lemma first_sightings_distinct:
  "distinct (map (\<lambda>x. description (snd x)) (first_sightings os))"
proof (induction os)
  case Nil
  then show ?case by simp
next
  case (Cons a os)
  then have "distinct (map (\<lambda>x. description (snd x))
      (filter (\<lambda>y. description (snd y) \<noteq> description (snd a)) (first_sightings os)))"
    by (simp add: distinct_map_filter)
  then show ?case by auto
qed

lemma first_sightings_find:
  "x \<in> set (first_sightings os) \<Longrightarrow>
   find (\<lambda>y. description (snd y) = description (snd x)) os = Some x"
  by (induction os) auto

lemma update_new_key: "k \<notin> fst ` set al \<Longrightarrow> AList.update k v al = al @ [(k, v)]"
  by (induction al) auto

lemma tables_characterised:
  "\<forall>x \<in> set os. is_recurring (snd x) \<and> description (snd x) \<notin> set Object_prototype_names \<Longrightarrow>
   fold (\<lambda>x. visit_tx (fst x) (snd x)) os (Map.empty, []) =
     ((\<lambda>n. if n \<in> (\<lambda>x. description (snd x)) ` set os
            then Some (Count (length (filter (\<lambda>x. description (snd x) = n) os))) else None),
      map (\<lambda>x. (description (snd x), seed_of (fst x) (snd x))) (first_sightings os))"
proof (induction os rule: rev_induct)
  case Nil
  then show ?case by simp
next
  case (snoc x os)
  let ?n = "description (snd x)"
  let ?pc = "\<lambda>n. if n \<in> (\<lambda>x. description (snd x)) ` set os
            then Some (Count (length (filter (\<lambda>x. description (snd x) = n) os))) else None"
  let ?pd = "map (\<lambda>x. (description (snd x), seed_of (fst x) (snd x))) (first_sightings os)"
  from snoc.prems have r: "is_recurring (snd x)" and np: "?n \<notin> set Object_prototype_names"
    and ro: "\<forall>y \<in> set os. is_recurring (snd y) \<and> description (snd y) \<notin> set Object_prototype_names"
    by simp_all
  from np have n: "?n \<noteq> ''__proto__''" by (auto simp: Object_prototype_names_def)
  have f: "fold (\<lambda>x. visit_tx (fst x) (snd x)) (os @ [x]) (Map.empty, [])
      = visit_tx (fst x) (snd x) (?pc, ?pd)"
    using snoc.IH [OF ro] by simp
  show ?case
  proof (cases "?n \<in> (\<lambda>x. description (snd x)) ` set os")
    case True
    then obtain y where "y \<in> set os" "description (snd y) = ?n" by auto
    then have "filter (\<lambda>y. description (snd y) = ?n) os \<noteq> []"
      unfolding filter_empty_conv by blast
    then have pos: "0 < length (filter (\<lambda>y. description (snd y) = ?n) os)" by simp
    from True pos have g: "getCount ?pc ?n = Count (length (filter (\<lambda>y. description (snd y) = ?n) os))"
      and t: "truthy (getCount ?pc ?n)"
      by (simp_all add: getCount_def)
    have "visit_tx (fst x) (snd x) (?pc, ?pd)
        = (?pc(?n \<mapsto> Count (length (filter (\<lambda>y. description (snd y) = ?n) os) + 1)), ?pd)"
      unfolding visit_tx_recurring [OF r] using t g n by (simp add: setCount_def)
    moreover have "?pc(?n \<mapsto> Count (length (filter (\<lambda>y. description (snd y) = ?n) os) + 1))
        = (\<lambda>m. if m \<in> (\<lambda>x. description (snd x)) ` set (os @ [x])
            then Some (Count (length (filter (\<lambda>x. description (snd x) = m) (os @ [x])))) else None)"
    proof
      fix m
      show "(?pc(?n \<mapsto> Count (length (filter (\<lambda>y. description (snd y) = ?n) os) + 1))) m
        = (if m \<in> (\<lambda>x. description (snd x)) ` set (os @ [x])
            then Some (Count (length (filter (\<lambda>x. description (snd x) = m) (os @ [x])))) else None)"
        using True by (cases "m = ?n") auto
    qed
    moreover have "first_sightings (os @ [x]) = first_sightings os"
      using True by (simp add: first_sightings_snoc)
    ultimately show ?thesis using f by simp
  next
    case False
    then have u: "getCount ?pc ?n = Undefined" using np by (simp add: getCount_def)
    have "fst ` set ?pd = (\<lambda>x. description (snd x)) ` set (first_sightings os)"
      by (simp add: image_image)
    with False have k: "?n \<notin> fst ` set ?pd"
      by (simp only: first_sightings_names) simp
    have "visit_tx (fst x) (snd x) (?pc, ?pd)
        = (?pc(?n \<mapsto> Count 1), ?pd @ [(?n, seed_of (fst x) (snd x))])"
      unfolding visit_tx_recurring [OF r] using u n update_new_key [OF k]
      by (simp add: setCount_def setData_def getCount_def)
    moreover have "?pc(?n \<mapsto> Count 1)
        = (\<lambda>m. if m \<in> (\<lambda>x. description (snd x)) ` set (os @ [x])
            then Some (Count (length (filter (\<lambda>x. description (snd x) = m) (os @ [x])))) else None)"
    proof
      fix m
      have "description (snd y) \<noteq> ?n" if "y \<in> set os" for y
        using that False by (auto simp: image_iff)
      then have "filter (\<lambda>y. description (snd y) = ?n) os = []"
        unfolding filter_empty_conv by simp
      then show "(?pc(?n \<mapsto> Count 1)) m
        = (if m \<in> (\<lambda>x. description (snd x)) ` set (os @ [x])
            then Some (Count (length (filter (\<lambda>x. description (snd x) = m) (os @ [x])))) else None)"
        by (cases "m = ?n") auto
    qed
    moreover have "first_sightings (os @ [x]) = first_sightings os @ [x]"
      using False by (simp add: first_sightings_snoc)
    ultimately show ?thesis using f by simp
  qed
qed

lemma scan_days_characterised:
  "\<forall>x \<in> set (sightings days). description (snd x) \<notin> set Object_prototype_names \<Longrightarrow>
   scan_days days =
     ((\<lambda>n. if n \<in> (\<lambda>x. description (snd x)) ` set (sightings days)
            then Some (Count (occurrences n days)) else None),
      map (\<lambda>x. (description (snd x), seed_of (fst x) (snd x))) (first_sightings (sightings days)))"
  unfolding scan_days_sightings occurrences_def
  by (rule tables_characterised) (simp add: sightings_recurring)

lemma scan_days_keys:
  "\<forall>x \<in> set (sightings days). description (snd x) \<notin> set Object_prototype_names \<Longrightarrow>
   map fst (snd (scan_days days))
     = map (\<lambda>x. description (snd x)) (first_sightings (sightings days))"
  by (simp add: scan_days_characterised comp_def)

lemma distinct_keys_own_enumerable:
  "distinct (map fst obj) \<Longrightarrow> distinct (map fst (own_enumerable obj))"
proof -
  assume d: "distinct (map fst obj)"
  then have o: "distinct obj" and i: "inj_on fst (set obj)" by (simp_all add: distinct_map)
  from o have "distinct (own_enumerable obj)"
    by (auto simp: own_enumerable_def)
  with i show ?thesis by (simp add: distinct_map set_own_enumerable)
qed

lemma distinct_names_sort_desc:
  "distinct (map p_name ps) \<Longrightarrow> distinct (map p_name (sort_desc ps))"
  by (simp add: distinct_map sort_desc_def)

subsection \<open>One entry per description\<close>

text \<open>
  When no recurring description is the name of a member of \<open>Object.prototype\<close>, the
  aggregated list has exactly one entry per distinct description, the entry's count is
  the number of recurring transactions with that description, and its id, amount, date,
  category and status come from the first of them.
\<close>

lemma aggregate_one_entry_per_description:
  assumes np: "\<forall>x \<in> set (sightings days). description (snd x) \<notin> set Object_prototype_names"
  shows "distinct (map p_name (aggregate days))"
    and "set (map p_name (aggregate days)) = (\<lambda>x. description (snd x)) ` set (sightings days)"
    and "\<forall>e \<in> set (aggregate days).
           p_count e = occurrences (p_name e) days
           \<and> (\<exists>x. find (\<lambda>y. description (snd y) = p_name e) (sightings days) = Some x
                \<and> p_id e = tx_id (snd x) \<and> p_amount e = tx_amount (snd x) \<and> p_date e = fst x
                \<and> p_category e = tx_category (snd x)
                \<and> p_status e = status_or_default (payment_status (snd x)))"
proof -
  let ?os = "sightings days"
  have keys: "map fst (snd (scan_days days)) = map (\<lambda>x. description (snd x)) (first_sightings ?os)"
    by (rule scan_days_keys [OF np])
  then have "distinct (map fst (snd (scan_days days)))"
    by (simp add: first_sightings_distinct)
  then have "distinct (map p_name (allRecurring (scan_days days)))"
    by (simp add: allRecurring_names distinct_keys_own_enumerable)
  then show "distinct (map p_name (aggregate days))"
    by (simp add: aggregate_def distinct_names_sort_desc)
  have "set (map p_name (aggregate days)) = set (map p_name (allRecurring (scan_days days)))"
    by (simp add: aggregate_def sort_desc_def)
  also have "\<dots> = fst ` set (snd (scan_days days))"
    by (simp add: allRecurring_names set_own_enumerable)
  also have "\<dots> = set (map fst (snd (scan_days days)))" by simp
  also have "\<dots> = (\<lambda>x. description (snd x)) ` set ?os"
    unfolding keys using first_sightings_names [of ?os] by simp
  finally show "set (map p_name (aggregate days)) = (\<lambda>x. description (snd x)) ` set ?os" .
  show "\<forall>e \<in> set (aggregate days).
           p_count e = occurrences (p_name e) days
           \<and> (\<exists>x. find (\<lambda>y. description (snd y) = p_name e) ?os = Some x
                \<and> p_id e = tx_id (snd x) \<and> p_amount e = tx_amount (snd x) \<and> p_date e = fst x
                \<and> p_category e = tx_category (snd x)
                \<and> p_status e = status_or_default (payment_status (snd x)))"
  proof
    fix e
    assume "e \<in> set (aggregate days)"
    then obtain k sd where m: "(k, sd) \<in> set (snd (scan_days days))"
      and e: "e = build_entry k sd (count_of (fst (scan_days days)) k)"
      using allRecurring_entry [of e days] by (auto simp: set_aggregate)
    from m obtain x where x: "x \<in> set (first_sightings ?os)"
      and k: "k = description (snd x)" and sd: "sd = seed_of (fst x) (snd x)"
      by (auto simp: scan_days_characterised [OF np])
    from x have "description (snd x) \<in> (\<lambda>x. description (snd x)) ` set ?os"
      using first_sightings_names [of ?os] by blast
    then have c: "count_of (fst (scan_days days)) k = occurrences k days"
      by (simp add: scan_days_characterised [OF np] count_of_def getCount_def k)
    have f: "find (\<lambda>y. description (snd y) = k) ?os = Some x"
      unfolding k by (rule first_sightings_find [OF x])
    show "p_count e = occurrences (p_name e) days
           \<and> (\<exists>x. find (\<lambda>y. description (snd y) = p_name e) ?os = Some x
                \<and> p_id e = tx_id (snd x) \<and> p_amount e = tx_amount (snd x) \<and> p_date e = fst x
                \<and> p_category e = tx_category (snd x)
                \<and> p_status e = status_or_default (payment_status (snd x)))"
      using c f by (simp add: e sd k build_entry_def seed_of_def)
  qed
qed

text \<open>
  C4 fails on the code for a description that is the name of a member of
  \<open>Object.prototype\<close>. The test \<open>!paymentCounts[name]\<close> then reads the inherited
  member, which is truthy, so the first sighting stores no entry and the increment
  leaves \<open>NaN\<close>. A month whose only recurring transaction is described as
  \<open>constructor\<close> aggregates to the empty list, although the description occurs once;
  when it occurs twice, the entry is stored at the second sighting and counts one
  occurrence.
\<close>

theorem constructor_description_dropped:
  "occurrences ''constructor'' builder_once = 1
   \<and> aggregate builder_once = []
   \<and> occurrences ''constructor'' builder_twice = 2
   \<and> map (\<lambda>e. (p_name e, p_id e, p_date e, p_count e)) (aggregate builder_twice)
       = [(''constructor'', 2, ''2024-05-17'', 1)]"
  by code_simp

subsection \<open>Frequency and monthly total\<close>

text \<open>
  C5: every entry of the aggregated list is classified weekly exactly when its name
  contains \<open>semanal\<close> (in any letter case) or its count is at least 4: its frequency
  text is \<open>MENSUAL\<close> exactly when neither holds and \<open>SEMANAL (Nx)\<close> with its count
  otherwise, and its \<open>monthlyTotal\<close> is amount times count when weekly and the amount
  otherwise.
\<close>

theorem frequency_classification:
  "\<forall>e \<in> set (aggregate days).
     (frequency e = ''MENSUAL'') = (\<not> (mentions_semanal (p_name e) \<or> 4 \<le> p_count e))
     \<and> frequency e = (if mentions_semanal (p_name e) \<or> 4 \<le> p_count e
                      then ''SEMANAL ('' @ toString (int (p_count e)) @ ''x)'' else ''MENSUAL'')
     \<and> monthlyTotal e = (if mentions_semanal (p_name e) \<or> 4 \<le> p_count e
                         then p_amount e * real (p_count e) else p_amount e)"
proof
  fix e
  assume "e \<in> set (aggregate days)"
  then obtain k sd where "s_name sd = k"
    and "e = build_entry k sd (count_of (fst (scan_days days)) k)"
    using allRecurring_entry [of e days] by (auto simp: set_aggregate)
  then show "(frequency e = ''MENSUAL'') = (\<not> (mentions_semanal (p_name e) \<or> 4 \<le> p_count e))
     \<and> frequency e = (if mentions_semanal (p_name e) \<or> 4 \<le> p_count e
                      then ''SEMANAL ('' @ toString (int (p_count e)) @ ''x)'' else ''MENSUAL'')
     \<and> monthlyTotal e = (if mentions_semanal (p_name e) \<or> 4 \<le> p_count e
                         then p_amount e * real (p_count e) else p_amount e)"
    by (simp add: build_entry_def isWeekly_def name_test_iff)
qed

theorem frequency_classification_witness:
  "hd (aggregate may_days) \<in> set (aggregate may_days)
   \<and> p_name (hd (aggregate may_days)) = ''Gym''
   \<and> p_amount (hd (aggregate may_days)) = 100
   \<and> p_count (hd (aggregate may_days)) = 4
   \<and> frequency (hd (aggregate may_days)) = ''SEMANAL (4x)''
   \<and> monthlyTotal (hd (aggregate may_days)) = 400
   \<and> aggregate may_days ! 3 \<in> set (aggregate may_days)
   \<and> p_name (aggregate may_days ! 3) = ''Luz''
   \<and> p_amount (aggregate may_days ! 3) = 50
   \<and> p_count (aggregate may_days ! 3) = 3
   \<and> frequency (aggregate may_days ! 3) = ''MENSUAL''
   \<and> monthlyTotal (aggregate may_days ! 3) = 50
   \<and> aggregate may_days ! 4 \<in> set (aggregate may_days)
   \<and> p_name (aggregate may_days ! 4) = ''Ahorro Semanal''
   \<and> p_amount (aggregate may_days ! 4) = 20
   \<and> p_count (aggregate may_days ! 4) = 1
   \<and> frequency (aggregate may_days ! 4) = ''SEMANAL (1x)''
   \<and> monthlyTotal (aggregate may_days ! 4) = 20"
proof -
  have m: "hd (aggregate may_days) \<in> set (aggregate may_days)" by code_simp
  have n: "p_name (hd (aggregate may_days)) = ''Gym''" by code_simp
  have a: "p_amount (hd (aggregate may_days)) = 100" by code_simp
  have c: "p_count (hd (aggregate may_days)) = 4" by code_simp
  have t: "toString 4 = ''4''" "toString 1 = ''1''" by code_simp+
  have m': "aggregate may_days ! 3 \<in> set (aggregate may_days)" by code_simp
  have n': "p_name (aggregate may_days ! 3) = ''Luz''" by code_simp
  have a': "p_amount (aggregate may_days ! 3) = 50" by code_simp
  have c': "p_count (aggregate may_days ! 3) = 3" by code_simp
  have l: "\<not> mentions_semanal ''Luz''"
    unfolding name_test_iff [symmetric] by code_simp
  have m'': "aggregate may_days ! 4 \<in> set (aggregate may_days)" by code_simp
  have n'': "p_name (aggregate may_days ! 4) = ''Ahorro Semanal''" by code_simp
  have a'': "p_amount (aggregate may_days ! 4) = 20" by code_simp
  have c'': "p_count (aggregate may_days ! 4) = 1" by code_simp
  have w: "mentions_semanal ''Ahorro Semanal''"
    unfolding name_test_iff [symmetric] by code_simp
  from frequency_classification [of may_days] m
  have "frequency (hd (aggregate may_days)) = ''SEMANAL (4x)''
      \<and> monthlyTotal (hd (aggregate may_days)) = 400"
    by (simp add: n a c t)
  moreover from frequency_classification [of may_days] m'
  have "frequency (aggregate may_days ! 3) = ''MENSUAL''
      \<and> monthlyTotal (aggregate may_days ! 3) = 50"
    by (simp add: n' a' c' l)
  moreover from frequency_classification [of may_days] m''
  have "frequency (aggregate may_days ! 4) = ''SEMANAL (1x)''
      \<and> monthlyTotal (aggregate may_days ! 4) = 20"
    by (simp add: n'' a'' c'' w t)
  ultimately show ?thesis using m n a c m' n' a' c' m'' n'' a'' c'' by simp
qed

subsection \<open>Order of the aggregated list\<close>

text \<open>
  C9, as the claim states it, fails. Netflix is met on the first day and a payment
  described as \<open>365\<close> on the second, both with the monthly total 100; the aggregated
  list has \<open>365\<close> first, because \<open>Object.keys\<close> enumerates a name that is an array
  index before the other names.
\<close>

theorem numbered_description_counterexample:
  "map (\<lambda>x. description (snd x)) (sightings numbered_days) = [''Netflix'', ''365'']
   \<and> map p_name (aggregate numbered_days) = [''365'', ''Netflix'']
   \<and> map monthlyTotal (aggregate numbered_days) = [100, 100]"
  by code_simp

text \<open>
  C9, amended: the aggregated list is sorted in descending order of \<open>monthlyTotal\<close>,
  and entries with equal \<open>monthlyTotal\<close> keep the order in which \<open>Object.keys\<close>
  enumerates \<open>paymentData\<close> (the sort is stable): names that are array indices first,
  in ascending numeric order, then the other names in the order in which they were
  stored. When no recurring description is an array index or the name of a member of
  \<open>Object.prototype\<close>, that order is the order in which the descriptions are first
  met.
\<close>

theorem aggregate_sorted_stable:
  "sorted_wrt (\<lambda>a b. monthlyTotal a \<ge> monthlyTotal b) (aggregate days)
   \<and> filter (\<lambda>e. monthlyTotal e = v) (aggregate days)
       = filter (\<lambda>e. monthlyTotal e = v) (allRecurring (scan_days days))
   \<and> map p_name (allRecurring (scan_days days)) = map fst (own_enumerable (snd (scan_days days)))
   \<and> ((\<forall>x \<in> set (sightings days). \<not> is_array_index (description (snd x))
          \<and> description (snd x) \<notin> set Object_prototype_names)
       \<longrightarrow> map p_name (allRecurring (scan_days days))
            = map (\<lambda>x. description (snd x)) (first_sightings (sightings days)))"
proof -
  have "map p_name (allRecurring (scan_days days))
            = map (\<lambda>x. description (snd x)) (first_sightings (sightings days))"
    if h: "\<forall>x \<in> set (sightings days). \<not> is_array_index (description (snd x))
          \<and> description (snd x) \<notin> set Object_prototype_names"
  proof -
    from h have np: "\<forall>x \<in> set (sightings days). description (snd x) \<notin> set Object_prototype_names"
      by blast
    have "fst ` set (snd (scan_days days)) = (\<lambda>x. description (snd x)) ` set (sightings days)"
      using scan_days_keys [OF np] first_sightings_names [of "sightings days"]
      by (metis (no_types, lifting) list.set_map)
    with h have "\<forall>k \<in> fst ` set (snd (scan_days days)). \<not> is_array_index k" by auto
    then have "own_enumerable (snd (scan_days days)) = snd (scan_days days)"
      by (rule own_enumerable_no_index)
    then show ?thesis by (simp add: allRecurring_names scan_days_keys [OF np])
  qed
  then show ?thesis
    by (simp add: aggregate_def sort_desc_sorted sort_desc_stable allRecurring_names)
qed

theorem aggregate_sorted_stable_witness:
  "map p_name (allRecurring (scan_days may_days))
     = [''Gym'', ''Renta'', ''Luz'', ''Agua'', ''Ahorro Semanal'']
   \<and> map monthlyTotal (allRecurring (scan_days may_days)) = [400, 100, 50, 100, 20]
   \<and> sorted_wrt (\<lambda>a b. monthlyTotal a \<ge> monthlyTotal b) (aggregate may_days)
   \<and> map p_name (filter (\<lambda>e. monthlyTotal e = 100) (aggregate may_days)) = [''Renta'', ''Agua'']"
proof -
  have h: "\<forall>x \<in> set (sightings may_days). \<not> is_array_index (description (snd x))
      \<and> description (snd x) \<notin> set Object_prototype_names"
    by code_simp
  have f: "map (\<lambda>x. description (snd x)) (first_sightings (sightings may_days))
      = [''Gym'', ''Renta'', ''Luz'', ''Agua'', ''Ahorro Semanal'']"
    by code_simp
  have t: "map monthlyTotal (allRecurring (scan_days may_days)) = [400, 100, 50, 100, 20]"
    by code_simp
  note s = aggregate_sorted_stable [of may_days 100]
  from s h have "map p_name (allRecurring (scan_days may_days))
      = map (\<lambda>x. description (snd x)) (first_sightings (sightings may_days))"
    by blast
  then have n: "map p_name (allRecurring (scan_days may_days))
      = [''Gym'', ''Renta'', ''Luz'', ''Agua'', ''Ahorro Semanal'']"
    by (simp only: f)
  from s have o: "sorted_wrt (\<lambda>a b. monthlyTotal a \<ge> monthlyTotal b) (aggregate may_days)"
    by blast
  from s have "filter (\<lambda>e. monthlyTotal e = 100) (aggregate may_days)
      = filter (\<lambda>e. monthlyTotal e = 100) (allRecurring (scan_days may_days))"
    by blast
  moreover have "map p_name (filter (\<lambda>e. monthlyTotal e = 100) (allRecurring (scan_days may_days)))
      = [''Renta'', ''Agua'']"
    using n t by (auto simp: map_eq_Cons_conv)
  ultimately show ?thesis using n t o by simp
qed

subsection \<open>Status of the entries\<close>

text \<open>
  The status of every entry is the status of a sighting of its description, or
  \<open>pendiente\<close> where that sighting has none; so when every status present in the
  payload is of the vocabulary, every entry's status is.
\<close>

lemma aggregate_status_of_a_sighting:
  "e \<in> set (aggregate days) \<Longrightarrow>
   \<exists>x \<in> set (sightings days). p_name e = description (snd x)
      \<and> p_status e = status_or_default (payment_status (snd x))"
proof -
  assume "e \<in> set (aggregate days)"
  then obtain k sd where m: "(k, sd) \<in> set (snd (scan_days days))"
    and e: "e = build_entry k sd (count_of (fst (scan_days days)) k)"
    using allRecurring_entry [of e days] by (auto simp: set_aggregate)
  have "\<forall>x \<in> set (sightings days). is_recurring (snd x)"
    using sightings_recurring by blast
  from seeds_from_sightings [OF this] m obtain x where "x \<in> set (sightings days)"
    "k = description (snd x)" "sd = seed_of (fst x) (snd x)"
    unfolding scan_days_sightings by blast
  then show ?thesis by (auto simp: e build_entry_def seed_of_def)
qed

lemma status_or_default_vocabulary:
  "st \<in> {None, Some []} \<union> Some ` status_vocabulary \<Longrightarrow> status_or_default st \<in> status_vocabulary"
  by (auto simp: status_or_default_def status_vocabulary_def)

lemma aggregate_status_vocabulary:
  assumes "\<forall>x \<in> set (sightings days).
             payment_status (snd x) \<in> {None, Some []} \<union> Some ` status_vocabulary"
  shows "\<forall>e \<in> set (aggregate days). p_status e \<in> status_vocabulary"
proof
  fix e
  assume "e \<in> set (aggregate days)"
  then obtain x where "x \<in> set (sightings days)"
    "p_status e = status_or_default (payment_status (snd x))"
    using aggregate_status_of_a_sighting by blast
  with assms show "p_status e \<in> status_vocabulary"
    using status_or_default_vocabulary by metis
qed

text \<open>
  C10 fails on the code for a description that is the name of a member of
  \<open>Object.prototype\<close>, by the defect shown for C4: the entry is stored at the second
  sighting. The first sighting of \<open>constructor\<close> has no status and the second is
  paid; the entry's status is \<open>pagado\<close>, not the default.
\<close>

theorem constructor_status_from_second_sighting:
  "map (\<lambda>x. (description (snd x), payment_status (snd x))) (sightings builder_twice)
     = [(''constructor'', None), (''constructor'', Some ''pagado'')]
   \<and> map (\<lambda>e. (p_name e, p_status e)) (aggregate builder_twice) = [(''constructor'', ''pagado'')]"
  by code_simp

section \<open>Properties of the optimistic status updates\<close>

lemma updateStatus_settle_rejected:
  "recurringPayments (fst (updateStatus_settle previousPayments cb Rejected st)) = previousPayments"
  by (simp add: updateStatus_settle_def)

lemma updateStatus_begin_snapshot:
  "fst (updateStatus_begin paymentId newStatus localDate st) = recurringPayments st"
  by (simp add: updateStatus_begin_def Let_def)

lemma updateStatus_rejected:
  "recurringPayments (fst (updateStatus paymentId newStatus localDate cb Rejected st))
     = recurringPayments st"
  by (simp add: updateStatus_def updateStatus_begin_def updateStatus_settle_def Let_def)

lemma updateStatus_rejected_no_refresh:
  "snd (updateStatus paymentId newStatus localDate cb Rejected st) = False"
  by (simp add: updateStatus_def updateStatus_begin_def updateStatus_settle_def Let_def)

lemma pending_updateStatus_rejected:
  "payments (pending_updateStatus i newStatus Rejected st)
     = mark_due_status i newStatus (payments st)"
  by (simp add: pending_updateStatus_def fetchPayments_begin_def Let_def)

lemma pending_updateStatus_refetching:
  "pp_loading (pending_updateStatus i newStatus Rejected st)"
  "pending_updateStatus i newStatus Rejected st
     = fetchPayments_begin (pending_updateStatus i newStatus (Fulfilled ()) st)"
  "pp_loading (pending_updateStatus i newStatus (Fulfilled ()) st) = pp_loading st"
  "payments (pending_updateStatus i newStatus Rejected st)
     = mark_due_status i newStatus (payments st)"
  by (simp_all add: pending_updateStatus_def fetchPayments_begin_def Let_def)

lemma fetchPayments_settle_payments:
  "payments (fetchPayments_settle parseFloat (Fulfilled (Body (Some items))) st)
     = map (format_item parseFloat) items"
  "payments (fetchPayments_settle parseFloat Rejected st) = payments st"
  "payments (fetchPayments_settle parseFloat (Fulfilled NoBody) st) = payments st"
  by (simp_all add: fetchPayments_settle_def)

text \<open>
  C1, as the claim states it, fails for the due-item updater. The list holds the due
  items 1 (pendiente) and 2 (already marked pagado); setting item 1 to vencido fails.
  When the failure handler completes, the list still shows item 1 as vencido. It stays
  so if the refetch the handler started fails too, and if that refetch succeeds the list
  becomes whatever the server returns (here the one pending item), not the list held
  before the update.
\<close>

theorem pending_rollback_counterexample:
  "payments (pending_updateStatus (1::nat) ''vencido'' Rejected
      \<lparr>payments =
         [\<lparr>pp_id = 1, pp_name = ''Renta'', pp_amount = Num 100, pp_dueDate = ''2024-05-01'',
           pp_category = ''Otros'', pp_status = ''pendiente''\<rparr>,
          \<lparr>pp_id = 2, pp_name = ''Luz'', pp_amount = Num 40, pp_dueDate = ''2024-05-03'',
           pp_category = ''Otros'', pp_status = ''pagado''\<rparr>],
       pp_loading = False, pp_error = None, pp_openDropdown = Some 1\<rparr>)
     = [\<lparr>pp_id = 1, pp_name = ''Renta'', pp_amount = Num 100, pp_dueDate = ''2024-05-01'',
         pp_category = ''Otros'', pp_status = ''vencido''\<rparr>,
        \<lparr>pp_id = 2, pp_name = ''Luz'', pp_amount = Num 40, pp_dueDate = ''2024-05-03'',
         pp_category = ''Otros'', pp_status = ''pagado''\<rparr>]
   \<and> payments (fetchPayments_settle (\<lambda>a::real. Num a) Rejected
        (pending_updateStatus (1::nat) ''vencido'' Rejected
          \<lparr>payments =
             [\<lparr>pp_id = 1, pp_name = ''Renta'', pp_amount = Num 100, pp_dueDate = ''2024-05-01'',
               pp_category = ''Otros'', pp_status = ''pendiente''\<rparr>,
              \<lparr>pp_id = 2, pp_name = ''Luz'', pp_amount = Num 40, pp_dueDate = ''2024-05-03'',
               pp_category = ''Otros'', pp_status = ''pagado''\<rparr>],
           pp_loading = False, pp_error = None, pp_openDropdown = Some 1\<rparr>))
     = [\<lparr>pp_id = 1, pp_name = ''Renta'', pp_amount = Num 100, pp_dueDate = ''2024-05-01'',
         pp_category = ''Otros'', pp_status = ''vencido''\<rparr>,
        \<lparr>pp_id = 2, pp_name = ''Luz'', pp_amount = Num 40, pp_dueDate = ''2024-05-03'',
         pp_category = ''Otros'', pp_status = ''pagado''\<rparr>]
   \<and> payments (fetchPayments_settle (\<lambda>a::real. Num a)
        (Fulfilled (Body (Some
           [\<lparr>item_id = 1, item_description = Some ''Renta'', item_amount = 100,
             item_due_date = ''2024-05-01'', item_category = None,
             item_status = Some ''pendiente''\<rparr>])))
        (pending_updateStatus (1::nat) ''vencido'' Rejected
          \<lparr>payments =
             [\<lparr>pp_id = 1, pp_name = ''Renta'', pp_amount = Num 100, pp_dueDate = ''2024-05-01'',
               pp_category = ''Otros'', pp_status = ''pendiente''\<rparr>,
              \<lparr>pp_id = 2, pp_name = ''Luz'', pp_amount = Num 40, pp_dueDate = ''2024-05-03'',
               pp_category = ''Otros'', pp_status = ''pagado''\<rparr>],
           pp_loading = False, pp_error = None, pp_openDropdown = Some 1\<rparr>))
     = [\<lparr>pp_id = 1, pp_name = ''Renta'', pp_amount = Num 100, pp_dueDate = ''2024-05-01'',
         pp_category = ''Otros'', pp_status = ''pendiente''\<rparr>]"
  by (simp add: pending_updateStatus_def fetchPayments_begin_def fetchPayments_settle_def
      mark_due_status_def format_item_def or_else_def)

text \<open>
  C1, amended: for every record list, record id and new status, when the remote update
  of the recurring-payment updater fails, the list after the failure handler is the
  snapshot taken before the optimistic update, stored back as a whole (whatever the
  state was when the failure arrived), and no refresh is scheduled. The due-item updater
  takes no snapshot: its failure handler starts a refetch of the pending due items (the
  state it leaves is the one \<open>fetchPayments\<close> has at its \<open>await\<close>, with the loading
  flag set and the list still carrying the new status; a successful update starts
  none), and when that refetch succeeds the list is replaced as a whole by the formatted
  items of the server's response.
\<close>

theorem failed_update_restores:
  "recurringPayments (fst (updateStatus paymentId newStatus localDate cb Rejected st))
     = recurringPayments st
   \<and> fst (updateStatus_begin paymentId newStatus localDate st) = recurringPayments st
   \<and> recurringPayments (fst (updateStatus_settle
        (fst (updateStatus_begin paymentId newStatus localDate st)) cb Rejected st'))
     = recurringPayments st
   \<and> snd (updateStatus paymentId newStatus localDate cb Rejected st) = False
   \<and> payments (fetchPayments_settle parseFloat (Fulfilled (Body (Some items)))
        (pending_updateStatus i newStatus Rejected pst))
     = map (format_item parseFloat) items
   \<and> pp_loading (pending_updateStatus i newStatus Rejected pst)
   \<and> pending_updateStatus i newStatus Rejected pst
       = fetchPayments_begin (pending_updateStatus i newStatus (Fulfilled ()) pst)
   \<and> pp_loading (pending_updateStatus i newStatus (Fulfilled ()) pst) = pp_loading pst
   \<and> payments (pending_updateStatus i newStatus Rejected pst)
       = mark_due_status i newStatus (payments pst)"
proof -
  have "recurringPayments (fst (updateStatus paymentId newStatus localDate cb Rejected st))
     = recurringPayments st
   \<and> fst (updateStatus_begin paymentId newStatus localDate st) = recurringPayments st
   \<and> recurringPayments (fst (updateStatus_settle
        (fst (updateStatus_begin paymentId newStatus localDate st)) cb Rejected st'))
     = recurringPayments st
   \<and> snd (updateStatus paymentId newStatus localDate cb Rejected st) = False
   \<and> payments (fetchPayments_settle parseFloat (Fulfilled (Body (Some items)))
        (pending_updateStatus i newStatus Rejected pst))
     = map (format_item parseFloat) items"
    by (simp add: updateStatus_rejected updateStatus_begin_snapshot
        updateStatus_settle_rejected fetchPayments_settle_payments
        updateStatus_rejected_no_refresh)
  moreover note pending_updateStatus_refetching [of i newStatus pst]
  ultimately show ?thesis by blast
qed

theorem failed_update_restores_witness:
  "recurringPayments (fst (updateStatus (7::nat) ''pagado'' ''2024-05-02'' True Rejected
      \<lparr>recurringPayments =
         [\<lparr>p_id = 7, p_name = ''Gym'', p_amount = 100, p_date = ''2024-05-01'',
           p_category = ''Salud'', p_status = ''pendiente'', frequency = ''MENSUAL'',
           p_count = 1, monthlyTotal = 100\<rparr>],
       openDropdown = Some 7\<rparr>))
     = [\<lparr>p_id = 7, p_name = ''Gym'', p_amount = 100, p_date = ''2024-05-01'',
         p_category = ''Salud'', p_status = ''pendiente'', frequency = ''MENSUAL'',
         p_count = 1, monthlyTotal = 100\<rparr>]"
  using failed_update_restores [THEN conjunct1, of "7::nat" "''pagado''" "''2024-05-02''" True
      "\<lparr>recurringPayments =
         [\<lparr>p_id = 7, p_name = ''Gym'', p_amount = 100, p_date = ''2024-05-01'',
           p_category = ''Salud'', p_status = ''pendiente'', frequency = ''MENSUAL'',
           p_count = 1, monthlyTotal = 100\<rparr>],
       openDropdown = Some 7\<rparr>"]
  by simp

section \<open>Properties of the savings projection\<close>

lemma sum_principals: "(\<Sum>a\<leftarrow>SAVINGS_ACCOUNTS. principal a) = 52711.57"
  by (simp add: SAVINGS_ACCOUNTS_def)

lemma calculateSavings_checkpoint:
  "savingsLastUpdate st = Some (toString since) \<Longrightarrow>
   calculateSavings now st =
     (Num (\<Sum>a\<leftarrow>SAVINGS_ACCOUNTS. principal a *
             (1 + annualRate a / 365) powr ((real_of_int now - real_of_int since) / 86400000)),
      \<lparr>totalSavings =
          Num (\<Sum>a\<leftarrow>SAVINGS_ACCOUNTS. principal a *
             (1 + annualRate a / 365) powr ((real_of_int now - real_of_int since) / 86400000)),
        savingsLastUpdate = Some (toString now)\<rparr>)"
  by (simp add: calculateSavings_def parseInt_toString toString_nonempty compound_def
      Math_pow_def SAVINGS_ACCOUNTS_def Let_def)

lemma calculateSavings_no_checkpoint:
  "savingsLastUpdate st = None \<Longrightarrow>
   calculateSavings now st =
     (Num (\<Sum>a\<leftarrow>SAVINGS_ACCOUNTS. principal a),
      \<lparr>totalSavings = Num (\<Sum>a\<leftarrow>SAVINGS_ACCOUNTS. principal a),
        savingsLastUpdate = Some (toString now)\<rparr>)"
  by (simp add: calculateSavings_def SAVINGS_ACCOUNTS_def Let_def)

lemma calculateSavings_writes_checkpoint:
  "savingsLastUpdate (snd (calculateSavings now st)) = Some (toString now)"
  by (simp add: calculateSavings_def Let_def split: prod.splits)

lemma calculateSavings_same_instant:
  "savingsLastUpdate st = Some (toString now) \<Longrightarrow>
   fst (calculateSavings now st) = Num (\<Sum>a\<leftarrow>SAVINGS_ACCOUNTS. principal a)"
  by (simp add: calculateSavings_checkpoint SAVINGS_ACCOUNTS_def)

text \<open>
  C3: when the stored checkpoint is the decimal text of the time \<open>since\<close> (as an
  earlier computation at that time leaves it), the computation at time \<open>now\<close> returns
  the sum over the configured accounts of
  \<open>principal * (1 + annualRate / 365)\<close> to the power \<open>(now - since) / 86400000\<close>, a
  real (not truncated) number of days. Without a checkpoint it returns the sum of the
  principals, which for the configured accounts \<open>(25000, 0.13)\<close> and
  \<open>(27711.57, 0.07)\<close> is 52711.57. The equations hold for every \<open>now\<close>, before or
  after \<open>since\<close>.
\<close>

theorem calculateSavings_total:
  "fst (calculateSavings now (st\<lparr>savingsLastUpdate := Some (toString since)\<rparr>))
     = Num (\<Sum>a\<leftarrow>SAVINGS_ACCOUNTS. principal a *
             (1 + annualRate a / 365) powr ((real_of_int now - real_of_int since) / 86400000))
   \<and> fst (calculateSavings now (snd (calculateSavings since st)))
     = Num (\<Sum>a\<leftarrow>SAVINGS_ACCOUNTS. principal a *
             (1 + annualRate a / 365) powr ((real_of_int now - real_of_int since) / 86400000))
   \<and> fst (calculateSavings now (st\<lparr>savingsLastUpdate := None\<rparr>))
     = Num (\<Sum>a\<leftarrow>SAVINGS_ACCOUNTS. principal a)
   \<and> map (\<lambda>a. (principal a, annualRate a)) SAVINGS_ACCOUNTS = [(25000, 0.13), (27711.57, 0.07)]
   \<and> (\<Sum>a\<leftarrow>SAVINGS_ACCOUNTS. principal a) = 52711.57"
proof -
  have "fst (calculateSavings now (st\<lparr>savingsLastUpdate := Some (toString since)\<rparr>))
     = Num (\<Sum>a\<leftarrow>SAVINGS_ACCOUNTS. principal a *
             (1 + annualRate a / 365) powr ((real_of_int now - real_of_int since) / 86400000))"
    by (simp add: calculateSavings_checkpoint [of _ since])
  moreover have "fst (calculateSavings now (snd (calculateSavings since st)))
     = Num (\<Sum>a\<leftarrow>SAVINGS_ACCOUNTS. principal a *
             (1 + annualRate a / 365) powr ((real_of_int now - real_of_int since) / 86400000))"
    by (simp add: calculateSavings_checkpoint [OF calculateSavings_writes_checkpoint])
  moreover have "fst (calculateSavings now (st\<lparr>savingsLastUpdate := None\<rparr>))
     = Num (\<Sum>a\<leftarrow>SAVINGS_ACCOUNTS. principal a)"
    by (simp add: calculateSavings_no_checkpoint)
  moreover have "map (\<lambda>a. (principal a, annualRate a)) SAVINGS_ACCOUNTS
      = [(25000, 0.13), (27711.57, 0.07)]"
    by (simp add: SAVINGS_ACCOUNTS_def)
  ultimately show ?thesis using sum_principals by simp
qed

lemma toString_example: "toString 1700000000000 = ''1700000000000''"
  by (simp add: toString_def digits.simps digit_char_def char_of_eq_iff)

theorem calculateSavings_total_witness:
  "fst (calculateSavings 1700086400000
      \<lparr>totalSavings = Num 52711.57, savingsLastUpdate = Some ''1700000000000''\<rparr>)
     = Num (25000 * (1 + 0.13 / 365) + 27711.57 * (1 + 0.07 / 365))
   \<and> fst (calculateSavings 1700086400000
      \<lparr>totalSavings = Num 52711.57, savingsLastUpdate = None\<rparr>) = Num 52711.57"
  using calculateSavings_total [where now = 1700086400000 and since = 1700000000000
      and st = "\<lparr>totalSavings = Num 52711.57, savingsLastUpdate = None\<rparr>"]
  by (simp add: toString_example SAVINGS_ACCOUNTS_def)

text \<open>
  C6, as the claim states it, fails. With a checkpoint one day old, the first of two
  computations at the same instant returns the compounded total
  \<open>192449128599 / 3650000\<close> (about 52725.79) and the second one returns 52711.57.
\<close>

theorem successive_totals_counterexample:
  "fst (calculateSavings 1700086400000
      \<lparr>totalSavings = Num 52711.57, savingsLastUpdate = Some ''1700000000000''\<rparr>)
     = Num (192449128599 / 3650000)
   \<and> fst (calculateSavings 1700086400000 (snd (calculateSavings 1700086400000
      \<lparr>totalSavings = Num 52711.57, savingsLastUpdate = Some ''1700000000000''\<rparr>)))
     = Num 52711.57
   \<and> (192449128599 / 3650000 :: real) \<noteq> 52711.57"
proof -
  have a: "savingsLastUpdate \<lparr>totalSavings = Num 52711.57, savingsLastUpdate = Some ''1700000000000''\<rparr>
      = Some (toString 1700000000000)"
    by (simp add: toString_example)
  have "fst (calculateSavings 1700086400000
      \<lparr>totalSavings = Num 52711.57, savingsLastUpdate = Some ''1700000000000''\<rparr>)
     = Num (192449128599 / 3650000)"
    unfolding calculateSavings_checkpoint [OF a] by (simp add: SAVINGS_ACCOUNTS_def)
  moreover have "fst (calculateSavings 1700086400000 (snd (calculateSavings 1700086400000
      \<lparr>totalSavings = Num 52711.57, savingsLastUpdate = Some ''1700000000000''\<rparr>)))
     = Num 52711.57"
    using calculateSavings_same_instant [OF calculateSavings_writes_checkpoint]
    by (simp add: sum_principals)
  ultimately show ?thesis by simp
qed

text \<open>
  C6, amended: the second of two computations at the same instant returns the sum of the
  static principals, whatever the first one returned, and leaves the checkpoint at that
  instant; it never compounds on the first result. The first computation returns the
  same total when it found no checkpoint, or a checkpoint of that same instant.
\<close>

theorem successive_calculateSavings:
  "fst (calculateSavings now (snd (calculateSavings now st)))
     = Num (\<Sum>a\<leftarrow>SAVINGS_ACCOUNTS. principal a)
   \<and> savingsLastUpdate (snd (calculateSavings now (snd (calculateSavings now st))))
     = Some (toString now)
   \<and> fst (calculateSavings now (st\<lparr>savingsLastUpdate := None\<rparr>))
     = fst (calculateSavings now (snd (calculateSavings now (st\<lparr>savingsLastUpdate := None\<rparr>))))
   \<and> fst (calculateSavings now (st\<lparr>savingsLastUpdate := Some (toString now)\<rparr>))
     = fst (calculateSavings now (snd (calculateSavings now
          (st\<lparr>savingsLastUpdate := Some (toString now)\<rparr>))))"
  using calculateSavings_same_instant [OF calculateSavings_writes_checkpoint]
  by (simp add: calculateSavings_writes_checkpoint calculateSavings_no_checkpoint
      calculateSavings_same_instant)

theorem successive_calculateSavings_witness:
  "fst (calculateSavings 1700086400000 (snd (calculateSavings 1700086400000
      \<lparr>totalSavings = Num 52711.57, savingsLastUpdate = Some ''1700000000000''\<rparr>)))
     = Num 52711.57"
  using successive_calculateSavings [where now = 1700086400000
      and st = "\<lparr>totalSavings = Num 52711.57, savingsLastUpdate = Some ''1700000000000''\<rparr>"]
  by (simp add: sum_principals)

section \<open>Properties of the portfolio valuation\<close>

lemma valuate_link:
  "valuate [''chainlink'' \<mapsto> \<lparr>usd = Some 20, usd_24h_change = Some 5\<rparr>]
     \<lparr>symbol = ''LINK'', amount = 4.174, avgBuyPrice = 24.38, realizedProfit = None\<rparr>
   = \<lparr> a_symbol = ''LINK'', a_amount = 4.174, a_avgBuyPrice = 24.38, a_realizedProfit = None,
        a_price = 20, a_priceChange = 5, a_value = 83.48, a_profit = - 18.28212,
        a_profitPercent = - (21900 / 1219) \<rparr>"
  by (simp add: valuate_def SYMBOL_TO_ID_def or_zero_def)

lemma valuate_profit:
  "a_profit (valuate ps h) = (a_value (valuate ps h) - amount h * avgBuyPrice h)
      + (case realizedProfit h of None \<Rightarrow> 0 | Some r \<Rightarrow> r)"
  by (simp add: valuate_def or_zero_def Let_def)

text \<open>
  C2, as the claim states it, fails. With the price map
  \<open>{chainlink: {usd: 20, usd_24h_change: 5}}\<close> and the holding
  \<open>{symbol: LINK, amount: 4.174, avgBuyPrice: 24.38}\<close> the computed profit is
  \<open>83.48 - 4.174 * 24.38 = -18.28212\<close>, which is further than 0.48 from the claimed
  \<open>-17.80\<close>.
\<close>

theorem link_profit_counterexample:
  "a_profit (valuate [''chainlink'' \<mapsto> \<lparr>usd = Some 20, usd_24h_change = Some 5\<rparr>]
       \<lparr>symbol = ''LINK'', amount = 4.174, avgBuyPrice = 24.38, realizedProfit = None\<rparr>)
     = - 18.28212
   \<and> \<bar>a_profit (valuate [''chainlink'' \<mapsto> \<lparr>usd = Some 20, usd_24h_change = Some 5\<rparr>]
         \<lparr>symbol = ''LINK'', amount = 4.174, avgBuyPrice = 24.38, realizedProfit = None\<rparr>)
       - (- 17.80)\<bar> > 0.48"
  unfolding valuate_link by simp

text \<open>
  C2, amended: for that price map and that holding (the first entry of the holdings
  table) the valuation computes the value 83.48 and the profit -18.28 to two decimals;
  for every price map and holding the profit is (value - amount * avgBuyPrice) plus the
  realized profit, a missing realized profit counting as 0.
\<close>

theorem link_valuation:
  "a_value (valuate [''chainlink'' \<mapsto> \<lparr>usd = Some 20, usd_24h_change = Some 5\<rparr>]
       \<lparr>symbol = ''LINK'', amount = 4.174, avgBuyPrice = 24.38, realizedProfit = None\<rparr>)
     = 83.48
   \<and> \<bar>a_profit (valuate [''chainlink'' \<mapsto> \<lparr>usd = Some 20, usd_24h_change = Some 5\<rparr>]
         \<lparr>symbol = ''LINK'', amount = 4.174, avgBuyPrice = 24.38, realizedProfit = None\<rparr>)
       - (- 18.28)\<bar> < 0.005
   \<and> hd CRYPTO_HOLDINGS
       = \<lparr>symbol = ''LINK'', amount = 4.174, avgBuyPrice = 24.38, realizedProfit = None\<rparr>
   \<and> hd (portfolioData ps) = valuate ps (hd CRYPTO_HOLDINGS)
   \<and> a_profit (valuate ps h) = (a_value (valuate ps h) - amount h * avgBuyPrice h)
        + (case realizedProfit h of None \<Rightarrow> 0 | Some r \<Rightarrow> r)"
proof -
  have "hd (portfolioData ps) = valuate ps (hd CRYPTO_HOLDINGS)"
    by (simp add: portfolioData_def CRYPTO_HOLDINGS_def)
  moreover have "hd CRYPTO_HOLDINGS
       = \<lparr>symbol = ''LINK'', amount = 4.174, avgBuyPrice = 24.38, realizedProfit = None\<rparr>"
    by (simp add: CRYPTO_HOLDINGS_def)
  ultimately show ?thesis
    using valuate_profit [of ps h] unfolding valuate_link by simp
qed

theorem link_valuation_witness:
  "a_profit (valuate [''ripple'' \<mapsto> \<lparr>usd = Some 2, usd_24h_change = None\<rparr>]
       \<lparr>symbol = ''XRP'', amount = 22.12, avgBuyPrice = 0.60, realizedProfit = Some 236\<rparr>)
     = (a_value (valuate [''ripple'' \<mapsto> \<lparr>usd = Some 2, usd_24h_change = None\<rparr>]
          \<lparr>symbol = ''XRP'', amount = 22.12, avgBuyPrice = 0.60, realizedProfit = Some 236\<rparr>)
        - 22.12 * 0.60) + 236"
  using link_valuation [of "[''ripple'' \<mapsto> \<lparr>usd = Some 2, usd_24h_change = None\<rparr>]"
      "\<lparr>symbol = ''XRP'', amount = 22.12, avgBuyPrice = 0.60, realizedProfit = Some 236\<rparr>"]
  by simp

text \<open>
  C7: when the price fetch fails, the stored price map is the one held before the poll,
  so every valuation derived from it is unchanged, and the error flag is set to a
  non-empty message.
\<close>

theorem fetchPrices_rejected_keeps_prices:
  "prices (fetchPrices now Rejected st) = prices st
   \<and> portfolioData (prices (fetchPrices now Rejected st)) = portfolioData (prices st)
   \<and> c_error (fetchPrices now Rejected st) = Some ''Error updating prices''
   \<and> ''Error updating prices'' \<noteq> []"
  by (simp add: fetchPrices_def)

theorem fetchPrices_rejected_keeps_prices_witness:
  "prices (fetchPrices 1700000000000 Rejected
      \<lparr>prices = [''chainlink'' \<mapsto> \<lparr>usd = Some 20, usd_24h_change = Some 5\<rparr>],
       c_loading = False, c_error = None, lastUpdated = Some 1699999940000\<rparr>) ''chainlink''
     = Some \<lparr>usd = Some 20, usd_24h_change = Some 5\<rparr>
   \<and> c_error (fetchPrices 1700000000000 Rejected
      \<lparr>prices = [''chainlink'' \<mapsto> \<lparr>usd = Some 20, usd_24h_change = Some 5\<rparr>],
       c_loading = False, c_error = None, lastUpdated = Some 1699999940000\<rparr>)
     = Some ''Error updating prices''"
  using fetchPrices_rejected_keeps_prices
    [of 1700000000000 "\<lparr>prices = [''chainlink'' \<mapsto> \<lparr>usd = Some 20, usd_24h_change = Some 5\<rparr>],
       c_loading = False, c_error = None, lastUpdated = Some 1699999940000\<rparr>"]
  by simp

section \<open>Properties of the dashboard loading\<close>

lemma fetchAllData_error:
  "d_error (fetchAllData showLoading rs st)
     = (if all_rejected rs then Some ''Error al cargar los datos. Por favor intenta de nuevo.''
        else None)"
  by (simp add: fetchAllData_def Let_def)

lemma all_rejected_iff:
  "all_rejected rs \<longleftrightarrow>
     summaryRes rs = Rejected \<and> cashflowRes rs = Rejected \<and> tagRes rs = Rejected
     \<and> calendarRes rs = Rejected \<and> savingsRes rs = Rejected
     \<and> transactionsRes rs = Rejected \<and> categoryRes rs = Rejected"
  by (simp add: all_rejected_def rejected_def split: settled.splits)

lemma fetchAllData_slices:
  "summary (fetchAllData showLoading rs st) = keep_or_set (summary st) (summaryRes rs)"
  "cashflow (fetchAllData showLoading rs st) = keep_or_set_list (cashflow st) (cashflowRes rs)"
  "tagDistribution (fetchAllData showLoading rs st)
     = keep_or_set_list (tagDistribution st) (tagRes rs)"
  "calendar (fetchAllData showLoading rs st) = keep_or_set (calendar st) (calendarRes rs)"
  "savings (fetchAllData showLoading rs st) = keep_or_set (savings st) (savingsRes rs)"
  "d_transactions (fetchAllData showLoading rs st)
     = keep_or_set (d_transactions st) (transactionsRes rs)"
  "categoryDistribution (fetchAllData showLoading rs st)
     = keep_or_set_list (categoryDistribution st) (categoryRes rs)"
  by (simp_all add: fetchAllData_def Let_def)

text \<open>
  C8: after \<open>fetchAllData\<close> the error banner is set exactly when every one of the
  concurrent fetches was rejected. Each slice whose fetch was fulfilled holds the data of
  that response, and each slice whose fetch was rejected holds the value it had before.
\<close>

theorem fetchAllData_error_banner:
  "d_error (fetchAllData showLoading rs st)
     = (if summaryRes rs = Rejected \<and> cashflowRes rs = Rejected \<and> tagRes rs = Rejected
           \<and> calendarRes rs = Rejected \<and> savingsRes rs = Rejected
           \<and> transactionsRes rs = Rejected \<and> categoryRes rs = Rejected
        then Some ''Error al cargar los datos. Por favor intenta de nuevo.'' else None)
   \<and> summary (fetchAllData showLoading rs st)
       = (case summaryRes rs of Rejected \<Rightarrow> summary st | Fulfilled v \<Rightarrow> v)
   \<and> cashflow (fetchAllData showLoading rs st)
       = (case cashflowRes rs of Rejected \<Rightarrow> cashflow st
          | Fulfilled v \<Rightarrow> (case v of Some (Some xs) \<Rightarrow> xs | _ \<Rightarrow> []))
   \<and> tagDistribution (fetchAllData showLoading rs st)
       = (case tagRes rs of Rejected \<Rightarrow> tagDistribution st
          | Fulfilled v \<Rightarrow> (case v of Some (Some xs) \<Rightarrow> xs | _ \<Rightarrow> []))
   \<and> calendar (fetchAllData showLoading rs st)
       = (case calendarRes rs of Rejected \<Rightarrow> calendar st | Fulfilled v \<Rightarrow> v)
   \<and> savings (fetchAllData showLoading rs st)
       = (case savingsRes rs of Rejected \<Rightarrow> savings st | Fulfilled v \<Rightarrow> v)
   \<and> d_transactions (fetchAllData showLoading rs st)
       = (case transactionsRes rs of Rejected \<Rightarrow> d_transactions st | Fulfilled v \<Rightarrow> v)
   \<and> categoryDistribution (fetchAllData showLoading rs st)
       = (case categoryRes rs of Rejected \<Rightarrow> categoryDistribution st
          | Fulfilled v \<Rightarrow> (case v of Some (Some xs) \<Rightarrow> xs | _ \<Rightarrow> []))"
  unfolding fetchAllData_error fetchAllData_slices all_rejected_iff
    keep_or_set_def keep_or_set_list_def
  by simp

theorem fetchAllData_error_banner_witness:
  "d_error (fetchAllData True
      \<lparr>summaryRes = Rejected, cashflowRes = Rejected, tagRes = Rejected,
        calendarRes = Fulfilled (Some (7::nat)), savingsRes = Rejected, transactionsRes = Rejected,
        categoryRes = Rejected\<rparr>
      \<lparr>d_loading = True, d_refreshing = False, d_error = None, summary = None, cashflow = [],
        tagDistribution = [], categoryDistribution = [], calendar = None, savings = None,
        d_transactions = None\<rparr>) = None
   \<and> calendar (fetchAllData True
      \<lparr>summaryRes = Rejected, cashflowRes = Rejected, tagRes = Rejected,
        calendarRes = Fulfilled (Some (7::nat)), savingsRes = Rejected, transactionsRes = Rejected,
        categoryRes = Rejected\<rparr>
      \<lparr>d_loading = True, d_refreshing = False, d_error = None, summary = None, cashflow = [],
        tagDistribution = [], categoryDistribution = [], calendar = None, savings = None,
        d_transactions = None\<rparr>) = Some 7
   \<and> summary (fetchAllData True
      \<lparr>summaryRes = Rejected, cashflowRes = Rejected, tagRes = Rejected,
        calendarRes = Fulfilled (Some (7::nat)), savingsRes = Rejected, transactionsRes = Rejected,
        categoryRes = Rejected\<rparr>
      \<lparr>d_loading = True, d_refreshing = False, d_error = None, summary = None, cashflow = [],
        tagDistribution = [], categoryDistribution = [], calendar = None, savings = None,
        d_transactions = None\<rparr>) = None"
  using fetchAllData_error_banner [of True
      "\<lparr>summaryRes = Rejected, cashflowRes = Rejected, tagRes = Rejected,
        calendarRes = Fulfilled (Some (7::nat)), savingsRes = Rejected, transactionsRes = Rejected,
        categoryRes = Rejected\<rparr>"
      "\<lparr>d_loading = True, d_refreshing = False, d_error = None, summary = None, cashflow = [],
        tagDistribution = [], categoryDistribution = [], calendar = None, savings = None,
        d_transactions = None\<rparr>"]
  by simp

end
